theory Spec2Isabelle
  imports Complex_Main "HOL-Library.AList" "HOL-Library.Sublist"
begin

section \<open>Data model (models.py)\<close>

text \<open>
  Python strings are modelled as \<open>string\<close>; a character stands for a code point below 256.
  Python ints are \<open>int\<close>, floats are idealised as \<open>real\<close>. A pydantic \<open>HttpUrl\<close> is
  modelled as the string of the URL it holds. Optional fields are \<open>option\<close> values.
\<close>

record datetime =
  dt_year :: int
  dt_month :: int
  dt_day :: int
  dt_hour :: int
  dt_minute :: int
  dt_second :: int
  dt_microsecond :: int
  dt_utcoffset :: "int option"

record Competitor =
  name :: string
  url :: "string option"
  twitter :: "string option"
  linkedin :: "string option"
  created_at :: datetime

section \<open>Configuration and competitor registry (config.py)\<close>

record Config =
  competitors :: "(string \<times> Competitor) list"
  default_output_dir :: string
  rate_limit_delay :: real

text \<open>
  The \<open>competitors\<close> dict is an association list in insertion order with distinct keys:
  \<open>AList.update\<close> overwrites in place or appends, as assignment to a Python dict does.
  \<open>Config()\<close> is the default configuration.
\<close>

definition Config_default :: Config where
  "Config_default = \<lparr>competitors = [], default_output_dir = ''./output'', rate_limit_delay = 1\<rparr>"

datatype exn = ConfigFileError | TransportError | HTTPStatusError int | KeyError string

text \<open>
  The registry file \<open>CONFIG_FILE\<close>: it does not exist, or it holds the JSON rendering of a
  configuration (\<open>model_dump_json\<close>, read back by \<open>json.loads\<close> and \<open>model_validate\<close>), or
  it holds text that \<open>load_config\<close> cannot read. \<open>writes\<close> counts the calls of
  \<open>write_text\<close> on the file.
\<close>

datatype config_file = Absent | Stored Config | Corrupt

record filesystem =
  CONFIG_FILE :: config_file
  writes :: nat

definition stored_competitors :: "filesystem \<Rightarrow> (string \<times> Competitor) list" where
  "stored_competitors fs = (case CONFIG_FILE fs of Stored cfg \<Rightarrow> competitors cfg | _ \<Rightarrow> [])"

definition load_config :: "filesystem \<Rightarrow> exn + Config" where
  "load_config fs =
     (case CONFIG_FILE fs of
        Absent \<Rightarrow> Inr Config_default
      | Stored cfg \<Rightarrow> Inr cfg
      | Corrupt \<Rightarrow> Inl ConfigFileError)"

definition save_config :: "Config \<Rightarrow> filesystem \<Rightarrow> filesystem" where
  "save_config config fs = fs\<lparr>CONFIG_FILE := Stored config, writes := Suc (writes fs)\<rparr>"

definition add_competitor :: "Competitor \<Rightarrow> filesystem \<Rightarrow> exn + filesystem" where
  "add_competitor competitor fs =
     (case load_config fs of
        Inl e \<Rightarrow> Inl e
      | Inr config \<Rightarrow>
          Inr (save_config
                 (config\<lparr>competitors := AList.update (name competitor) competitor (competitors config)\<rparr>)
                 fs))"

definition get_competitor :: "string \<Rightarrow> filesystem \<Rightarrow> exn + Competitor option" where
  "get_competitor n fs =
     (case load_config fs of
        Inl e \<Rightarrow> Inl e
      | Inr config \<Rightarrow> Inr (map_of (competitors config) n))"

definition list_competitors :: "filesystem \<Rightarrow> exn + Competitor list" where
  "list_competitors fs =
     (case load_config fs of
        Inl e \<Rightarrow> Inl e
      | Inr config \<Rightarrow> Inr (map snd (competitors config)))"

definition remove_competitor :: "string \<Rightarrow> filesystem \<Rightarrow> exn + (bool \<times> filesystem)" where
  "remove_competitor n fs =
     (case load_config fs of
        Inl e \<Rightarrow> Inl e
      | Inr config \<Rightarrow>
          if n \<in> fst ` set (competitors config)
          then Inr (True, save_config (config\<lparr>competitors := AList.delete n (competitors config)\<rparr>) fs)
          else Inr (False, fs))"

section \<open>Python string operations\<close>

text \<open>
  \<open>str.isspace\<close>, \<open>str.strip\<close>, \<open>str.lower\<close>, \<open>str.split\<close>, \<open>str.join\<close>, \<open>str.lstrip\<close> and
  \<open>str(int)\<close> on code points below 256. The operator \<open>in\<close> on strings is \<open>sublist\<close>
  (a contiguous occurrence).
\<close>

definition isspace :: "char \<Rightarrow> bool" where
  "isspace c = (of_char c \<in> {9, 10, 11, 12, 13, 28, 29, 30, 31, 32, 133, 160 :: nat})"

definition strip :: "string \<Rightarrow> string" where
  "strip s = rev (dropWhile isspace (rev (dropWhile isspace s)))"

definition lower_char :: "char \<Rightarrow> char" where
  "lower_char c =
     (let n = of_char c :: nat
      in if (65 \<le> n \<and> n \<le> 90) \<or> (192 \<le> n \<and> n \<le> 222 \<and> n \<noteq> 215) then char_of (n + 32) else c)"

definition lower :: "string \<Rightarrow> string" where
  "lower s = map lower_char s"

fun split :: "char \<Rightarrow> string \<Rightarrow> string list" where
  "split sep [] = [[]]"
| "split sep (c # cs) =
     (if c = sep then [] # split sep cs
      else (case split sep cs of [] \<Rightarrow> [[c]] | w # ws \<Rightarrow> (c # w) # ws))"

fun join :: "string \<Rightarrow> string list \<Rightarrow> string" where
  "join sep [] = []"
| "join sep [x] = x"
| "join sep (x # y # ys) = x @ sep @ join sep (y # ys)"

definition lstrip_chars :: "string \<Rightarrow> string \<Rightarrow> string" where
  "lstrip_chars chars s = dropWhile (\<lambda>c. c \<in> set chars) s"

definition digit_char :: "nat \<Rightarrow> char" where
  "digit_char d = char_of (48 + d)"

fun str_nat_fuel :: "nat \<Rightarrow> nat \<Rightarrow> string" where
  "str_nat_fuel 0 n = [digit_char (n mod 10)]"
| "str_nat_fuel (Suc k) n =
     (if n < 10 then [digit_char n] else str_nat_fuel k (n div 10) @ [digit_char (n mod 10)])"

definition str_nat :: "nat \<Rightarrow> string" where
  "str_nat n = str_nat_fuel n n"

definition str_int :: "int \<Rightarrow> string" where
  "str_int i = (if i < 0 then CHR ''-'' # str_nat (nat (- i)) else str_nat (nat i))"

section \<open>Parsed documents (BeautifulSoup, ElementTree, json)\<close>

text \<open>
  The parsers are libraries: the analyzers are modelled on the parsed tree. An HTML tree has
  text nodes, comments and elements with a tag name, attributes and children.
  \<open>descendants\<close> lists the nodes below a node in document order, which is the order in
  which \<open>find_all\<close> returns its matches and \<open>find\<close> picks the first.
\<close>

datatype node =
    Text string
  | Comment string
  | Element string "(string \<times> string) list" "node list"

fun descendants :: "node \<Rightarrow> node list" where
  "descendants (Element t as cs) = concat (map (\<lambda>c. c # descendants c) cs)"
| "descendants (Text s) = []"
| "descendants (Comment s) = []"

fun tag_name :: "node \<Rightarrow> string option" where
  "tag_name (Element t as cs) = Some t"
| "tag_name (Text s) = None"
| "tag_name (Comment s) = None"

fun get_attr :: "node \<Rightarrow> string \<Rightarrow> string option" where
  "get_attr (Element t as cs) k = map_of as k"
| "get_attr (Text s) k = None"
| "get_attr (Comment s) k = None"

definition find_all_by :: "(node \<Rightarrow> bool) \<Rightarrow> node \<Rightarrow> node list" where
  "find_all_by p soup = filter p (descendants soup)"

definition find_by :: "(node \<Rightarrow> bool) \<Rightarrow> node \<Rightarrow> node option" where
  "find_by p soup = (case find_all_by p soup of [] \<Rightarrow> None | n # ns \<Rightarrow> Some n)"

text \<open>\<open>soup.find_all(tag)\<close> and \<open>soup.find(tag)\<close>.\<close>

definition find_all :: "string \<Rightarrow> node \<Rightarrow> node list" where
  "find_all t soup = find_all_by (\<lambda>n. tag_name n = Some t) soup"

definition find :: "string \<Rightarrow> node \<Rightarrow> node option" where
  "find t soup = find_by (\<lambda>n. tag_name n = Some t) soup"

text \<open>\<open>soup.find(tag, attrs={k: v})\<close> and \<open>soup.find_all(tag, attrs={k: v})\<close> for a single-valued attribute.\<close>

definition find_all_attr :: "string \<Rightarrow> string \<Rightarrow> string \<Rightarrow> node \<Rightarrow> node list" where
  "find_all_attr t k v soup = find_all_by (\<lambda>n. tag_name n = Some t \<and> get_attr n k = Some v) soup"

definition find_attr :: "string \<Rightarrow> string \<Rightarrow> string \<Rightarrow> node \<Rightarrow> node option" where
  "find_attr t k v soup = find_by (\<lambda>n. tag_name n = Some t \<and> get_attr n k = Some v) soup"

text \<open>
  \<open>rel\<close> and \<open>class\<close> are multi-valued attributes: BeautifulSoup holds them as the list of
  their whitespace-separated words and matches a string against any of the words.
\<close>

fun words_acc :: "string \<Rightarrow> string \<Rightarrow> string list" where
  "words_acc cur [] = (if cur = [] then [] else [cur])"
| "words_acc cur (c # cs) =
     (if isspace c then (if cur = [] then words_acc [] cs else cur # words_acc [] cs)
      else words_acc (cur @ [c]) cs)"

definition words_of :: "string \<Rightarrow> string list" where
  "words_of s = words_acc [] s"

text \<open>\<open>get_text(strip=True)\<close>: the stripped, non-empty text strings below a node, concatenated.\<close>

fun strings_of :: "node \<Rightarrow> string list" where
  "strings_of (Text s) = [s]"
| "strings_of (Comment s) = []"
| "strings_of (Element t as cs) = concat (map strings_of cs)"

definition get_text_strip :: "node \<Rightarrow> string" where
  "get_text_strip n = concat (filter (\<lambda>s. s \<noteq> []) (map strip (strings_of n)))"

text \<open>\<open>tag.string\<close>: the single string below a node, if there is exactly one child chain to it.\<close>

fun node_string :: "node \<Rightarrow> string option" where
  "node_string (Text s) = Some s"
| "node_string (Comment s) = Some s"
| "node_string (Element t as [c]) = node_string c"
| "node_string (Element t as cs) = None"

text \<open>A truthy optional string: present and non-empty.\<close>

fun truthy :: "string option \<Rightarrow> bool" where
  "truthy None = False"
| "truthy (Some s) = (s \<noteq> [])"

text \<open>An XML element as \<open>ElementTree\<close> gives it: tag, text (None when empty) and children.\<close>

datatype xml = XElem string "string option" "xml list"

fun xtag :: "xml \<Rightarrow> string" where
  "xtag (XElem t tx cs) = t"

fun xtext :: "xml \<Rightarrow> string option" where
  "xtext (XElem t tx cs) = tx"

fun xchildren :: "xml \<Rightarrow> xml list" where
  "xchildren (XElem t tx cs) = cs"

definition xfindall :: "string \<Rightarrow> xml \<Rightarrow> xml list" where
  "xfindall t e = filter (\<lambda>c. xtag c = t) (xchildren e)"

definition xfind :: "string \<Rightarrow> xml \<Rightarrow> xml option" where
  "xfind t e = (case xfindall t e of [] \<Rightarrow> None | c # cs \<Rightarrow> Some c)"

datatype json =
    JNull
  | JBool bool
  | JNum real
  | JStr string
  | JArr "json list"
  | JObj "(string \<times> json) list"

section \<open>Result records (models.py)\<close>

record WebAnalysisResult =
  title :: "string option"
  description :: "string option"
  headings :: "string list"
  links_count :: int
  images_count :: int
  technologies :: "string list"
  page_size_bytes :: int
  load_time_ms :: real

record SEOAnalysisResult =
  meta_title :: "string option"
  meta_description :: "string option"
  meta_keywords :: "string list"
  h1_tags :: "string list"
  h2_tags :: "string list"
  canonical_url :: "string option"
  robots_meta :: "string option"
  og_tags :: "(string \<times> string) list"
  structured_data :: "json list"

record NewsItem =
  item_title :: string
  item_url :: string
  source :: "string option"
  published_at :: "datetime option"
  snippet :: "string option"

record NewsAnalysisResult =
  items :: "NewsItem list"
  total_mentions :: int

record SocialProfile =
  platform :: string
  handle :: string
  followers :: "int option"
  following :: "int option"
  posts_count :: "int option"
  bio :: "string option"
  verified :: bool

record SocialAnalysisResult =
  profiles :: "SocialProfile list"

record AnalysisResult =
  competitor_name :: string
  analyzed_at :: datetime
  web :: "WebAnalysisResult option"
  seo :: "SEOAnalysisResult option"
  news :: "NewsAnalysisResult option"
  social :: "SocialAnalysisResult option"

definition NewsAnalysisResult_default :: NewsAnalysisResult where
  "NewsAnalysisResult_default = \<lparr>items = [], total_mentions = 0\<rparr>"

section \<open>Environment: network, clock and libraries\<close>

text \<open>
  What the program gets from outside is a parameter of the model. \<open>http_get u t\<close> is the
  outcome of the GET of \<open>u\<close> issued at time \<open>t\<close>: the time it takes and either a transport
  failure (None) or the final response. The parsers, \<open>datetime.strptime\<close>, \<open>quote_plus\<close>
  and \<open>datetime.now\<close> are library functions.
\<close>

record response =
  status_code :: int
  resp_text :: string
  content_len :: int

record env =
  http_get :: "string \<Rightarrow> real \<Rightarrow> real \<times> response option"
  parse_html :: "string \<Rightarrow> node"
  fromstring :: "string \<Rightarrow> xml option"
  json_loads :: "string \<Rightarrow> json option"
  strptime :: "string \<Rightarrow> string \<Rightarrow> datetime option"
  quote_plus :: "string \<Rightarrow> string"
  datetime_now :: "real \<Rightarrow> datetime"

text \<open>
  The world: the clock (\<open>loop.time()\<close> and \<open>time.monotonic()\<close>) and the log of outbound
  requests, oldest first, each with the name of the analyzer that issued it, the URL and the
  time of issue.
\<close>

record world =
  clock :: real
  requests :: "(string \<times> string \<times> real) list"

section \<open>Rate-limited fetcher (analyzers/base.py)\<close>

text \<open>
  A \<open>BaseAnalyzer\<close> instance: the value of its \<open>name\<close> property, its \<open>_config\<close> and its own
  \<open>_last_request_time\<close>, which \<open>__init__\<close> sets to 0.
\<close>

record analyzer =
  analyzer_name :: string
  config :: Config
  last_request_time :: real

definition BaseAnalyzer_init :: "string \<Rightarrow> filesystem \<Rightarrow> exn + analyzer" where
  "BaseAnalyzer_init nm fs =
     (case load_config fs of
        Inl e \<Rightarrow> Inl e
      | Inr cfg \<Rightarrow> Inr \<lparr>analyzer_name = nm, config = cfg, last_request_time = 0\<rparr>)"

text \<open>\<open>asyncio.sleep(d)\<close> advances the clock by \<open>d\<close>.\<close>

definition sleep :: "real \<Rightarrow> world \<Rightarrow> world" where
  "sleep d w = w\<lparr>clock := clock w + d\<rparr>"

definition rate_limit :: "analyzer \<Rightarrow> world \<Rightarrow> analyzer \<times> world" where
  "rate_limit self w =
     (let delay = rate_limit_delay (config self);
          current_time = clock w;
          elapsed = current_time - last_request_time self;
          w' = (if elapsed < delay then sleep (delay - elapsed) w else w)
      in (self\<lparr>last_request_time := clock w'\<rparr>, w'))"

definition fetch_url :: "env \<Rightarrow> analyzer \<Rightarrow> string \<Rightarrow> world \<Rightarrow> (exn + response) \<times> analyzer \<times> world" where
  "fetch_url e self u w =
     (let (self', w1) = rate_limit self w;
          t = clock w1;
          (d, r) = http_get e u t;
          w2 = w1\<lparr>clock := t + d, requests := requests w1 @ [(analyzer_name self, u, t)]\<rparr>
      in ((case r of
             None \<Rightarrow> Inl TransportError
           | Some resp \<Rightarrow>
               if 200 \<le> status_code resp \<and> status_code resp < 300 then Inr resp
               else Inl (HTTPStatusError (status_code resp))),
          self', w2))"

section \<open>Web extractor (analyzers/web.py)\<close>

definition tech_signatures :: "(string \<times> string list) list" where
  "tech_signatures =
     [(''React'', [''react'', ''_reactRootContainer'', ''data-reactroot'']),
      (''Vue.js'', [''vue'', ''__vue__'', ''data-v-'']),
      (''Angular'', [''ng-'', ''angular'', ''_ngcontent'']),
      (''jQuery'', [''jquery'', ''jQuery'']),
      (''Bootstrap'', [''bootstrap'']),
      (''Tailwind'', [''tailwind'']),
      (''WordPress'', [''wp-content'', ''wp-includes'']),
      (''Shopify'', [''shopify'', ''cdn.shopify'']),
      (''Next.js'', [''_next'', ''__NEXT_DATA__'']),
      (''Gatsby'', [''gatsby''])]"

text \<open>The inner loop over the signatures of one technology: append once and break.\<close>

fun scan_signatures :: "string \<Rightarrow> string list \<Rightarrow> string \<Rightarrow> string list \<Rightarrow> string list" where
  "scan_signatures tech [] html_lower techs = techs"
| "scan_signatures tech (sig # sigs) html_lower techs =
     (if sublist (lower sig) html_lower then techs @ [tech]
      else scan_signatures tech sigs html_lower techs)"

fun scan_technologies :: "(string \<times> string list) list \<Rightarrow> string \<Rightarrow> string list \<Rightarrow> string list" where
  "scan_technologies [] html_lower techs = techs"
| "scan_technologies ((tech, signatures) # rest) html_lower techs =
     scan_technologies rest html_lower (scan_signatures tech signatures html_lower techs)"

text \<open>
  \<open>list(set(technologies))\<close> keeps one copy of each name, in an order that Python leaves
  unspecified; the model keeps the order of \<open>remdups\<close>, and nothing proved depends on it.
\<close>

definition detect_technologies :: "node \<Rightarrow> string \<Rightarrow> string list" where
  "detect_technologies soup html =
     (let html_lower = lower html;
          techs = scan_technologies tech_signatures html_lower []
      in remdups techs)"

text \<open>The two nested loops that collect the headings, and the cap.\<close>

fun headings_of_tag :: "string \<Rightarrow> node list \<Rightarrow> string list \<Rightarrow> string list" where
  "headings_of_tag t [] hs = hs"
| "headings_of_tag t (heading # rest) hs =
     (let tx = get_text_strip heading
      in if tx \<noteq> [] then headings_of_tag t rest (hs @ [t @ '': '' @ tx])
         else headings_of_tag t rest hs)"

fun headings_loop :: "string list \<Rightarrow> node \<Rightarrow> string list \<Rightarrow> string list" where
  "headings_loop [] soup hs = hs"
| "headings_loop (t # ts) soup hs = headings_loop ts soup (headings_of_tag t (find_all t soup) hs)"

definition extract_headings :: "node \<Rightarrow> string list" where
  "extract_headings soup = headings_loop [''h1'', ''h2'', ''h3''] soup []"

definition soup_title :: "node \<Rightarrow> string option" where
  "soup_title soup = (case find ''title'' soup of None \<Rightarrow> None | Some t \<Rightarrow> node_string t)"

text \<open>\<open>tag = soup.find(t, attrs={k: v})\<close>, then \<open>tag[a]\<close> if \<open>tag and tag.get(a)\<close>, else None.\<close>

definition attr_of_found :: "node option \<Rightarrow> string \<Rightarrow> string option" where
  "attr_of_found tg a =
     (case tg of
        None \<Rightarrow> None
      | Some n \<Rightarrow> if truthy (get_attr n a) then get_attr n a else None)"

definition web_analyze ::
  "env \<Rightarrow> analyzer \<Rightarrow> Competitor \<Rightarrow> world \<Rightarrow> (exn + WebAnalysisResult option) \<times> analyzer \<times> world" where
  "web_analyze e self competitor w =
     (case url competitor of
        None \<Rightarrow> (Inr None, self, w)
      | Some u \<Rightarrow>
          (let start_time = clock w;
               (r, self', w') = fetch_url e self u w
           in case r of
                Inl ex \<Rightarrow> (Inl ex, self', w')
              | Inr resp \<Rightarrow>
                  (let load_time = (clock w' - start_time) * 1000;
                       soup = parse_html e (resp_text resp)
                   in (Inr (Some
                         \<lparr>title = soup_title soup,
                          description = attr_of_found (find_attr ''meta'' ''name'' ''description'' soup) ''content'',
                          headings = take 20 (extract_headings soup),
                          links_count = int (length (find_all_by
                              (\<lambda>n. tag_name n = Some ''a'' \<and> get_attr n ''href'' \<noteq> None) soup)),
                          images_count = int (length (find_all ''img'' soup)),
                          technologies = detect_technologies soup (resp_text resp),
                          page_size_bytes = content_len resp,
                          load_time_ms = load_time\<rparr>),
                       self', w'))))"

section \<open>SEO extractor (analyzers/seo.py)\<close>

text \<open>\<open>x or ""\<close> for an optional string.\<close>

fun or_empty :: "string option \<Rightarrow> string" where
  "or_empty None = []"
| "or_empty (Some s) = s"

fun og_loop :: "node list \<Rightarrow> (string \<times> string) list \<Rightarrow> (string \<times> string) list" where
  "og_loop [] og = og"
| "og_loop (og_tag # rest) og =
     (let prop = or_empty (get_attr og_tag ''property'');
          content = or_empty (get_attr og_tag ''content'')
      in if prop \<noteq> [] \<and> content \<noteq> [] then og_loop rest (AList.update prop content og)
         else og_loop rest og)"

fun ld_loop :: "env \<Rightarrow> node list \<Rightarrow> json list \<Rightarrow> json list" where
  "ld_loop e [] sd = sd"
| "ld_loop e (script # rest) sd =
     (case json_loads e (or_empty (node_string script)) of
        None \<Rightarrow> ld_loop e rest sd
      | Some data \<Rightarrow> ld_loop e rest (sd @ [data]))"

definition extract_keywords :: "node \<Rightarrow> string list" where
  "extract_keywords soup =
     (case attr_of_found (find_attr ''meta'' ''name'' ''keywords'' soup) ''content'' of
        None \<Rightarrow> []
      | Some content \<Rightarrow> map strip (split CHR '','' content))"

definition seo_analyze ::
  "env \<Rightarrow> analyzer \<Rightarrow> Competitor \<Rightarrow> world \<Rightarrow> (exn + SEOAnalysisResult option) \<times> analyzer \<times> world" where
  "seo_analyze e self competitor w =
     (case url competitor of
        None \<Rightarrow> (Inr None, self, w)
      | Some u \<Rightarrow>
          (let (r, self', w') = fetch_url e self u w
           in case r of
                Inl ex \<Rightarrow> (Inl ex, self', w')
              | Inr resp \<Rightarrow>
                  (let soup = parse_html e (resp_text resp);
                       h1 = map get_text_strip (find_all ''h1'' soup);
                       h2 = map get_text_strip (find_all ''h2'' soup);
                       canonical_tag = find_by (\<lambda>n. tag_name n = Some ''link'' \<and>
                           (case get_attr n ''rel'' of None \<Rightarrow> False
                            | Some v \<Rightarrow> ''canonical'' \<in> set (words_of v))) soup;
                       og = og_loop (find_all_by (\<lambda>n. tag_name n = Some ''meta'' \<and>
                           (case get_attr n ''property'' of None \<Rightarrow> False
                            | Some v \<Rightarrow> prefix ''og:'' v)) soup) [];
                       sd = ld_loop e (find_all_attr ''script'' ''type'' ''application/ld+json'' soup) []
                   in (Inr (Some
                         \<lparr>meta_title = soup_title soup,
                          meta_description = attr_of_found (find_attr ''meta'' ''name'' ''description'' soup) ''content'',
                          meta_keywords = extract_keywords soup,
                          h1_tags = h1,
                          h2_tags = take 10 h2,
                          canonical_url = attr_of_found canonical_tag ''href'',
                          robots_meta = attr_of_found (find_attr ''meta'' ''name'' ''robots'' soup) ''content'',
                          og_tags = og,
                          structured_data = take 5 sd\<rparr>),
                       self', w'))))"

section \<open>News extractor (analyzers/news.py)\<close>

definition date_formats :: "string list" where
  "date_formats =
     [''%a, %d %b %Y %H:%M:%S %Z'',
      ''%a, %d %b %Y %H:%M:%S %z'',
      ''%Y-%m-%dT%H:%M:%S%z'']"

text \<open>\<open>strptime e s fmt = None\<close> stands for the \<open>ValueError\<close> of a string that does not match.\<close>

fun try_formats :: "env \<Rightarrow> string \<Rightarrow> string list \<Rightarrow> datetime option" where
  "try_formats e date_str [] = None"
| "try_formats e date_str (fmt # fmts) =
     (case strptime e date_str fmt of
        Some d \<Rightarrow> Some d
      | None \<Rightarrow> try_formats e date_str fmts)"

definition parse_date :: "env \<Rightarrow> string \<Rightarrow> datetime option" where
  "parse_date e date_str = try_formats e date_str date_formats"

text \<open>
  \<open>re.sub(r"<[^>]+>", "", s)\<close>: at a \<open><\<close> followed by at least one character other than
  \<open>>\<close> and then a \<open>>\<close>, everything up to that \<open>>\<close> is dropped; any other character is kept.
\<close>

function strip_tags :: "string \<Rightarrow> string" where
  "strip_tags [] = []"
| "strip_tags (c # cs) =
     (if c = CHR ''<'' \<and> takeWhile (\<lambda>x. x \<noteq> CHR ''>'') cs \<noteq> [] \<and> dropWhile (\<lambda>x. x \<noteq> CHR ''>'') cs \<noteq> []
      then strip_tags (tl (dropWhile (\<lambda>x. x \<noteq> CHR ''>'') cs))
      else c # strip_tags cs)"
  by pat_completeness auto
termination
proof (relation "measure length")
  show "wf (measure length)" by simp
next
  fix c :: char and cs :: string
  have "length (tl (dropWhile (\<lambda>x. x \<noteq> CHR ''>'') cs)) \<le> length cs"
    using length_dropWhile_le [of "\<lambda>x. x \<noteq> CHR ''>''" cs] by simp
  then show "(tl (dropWhile (\<lambda>x. x \<noteq> CHR ''>'') cs), c # cs) \<in> measure length"
    by simp
next
  fix c :: char and cs :: string
  show "(cs, c # cs) \<in> measure length" by simp
qed

definition parse_item :: "env \<Rightarrow> xml \<Rightarrow> NewsItem option" where
  "parse_item e item =
     (let title_elem = xfind ''title'' item;
          link_elem = xfind ''link'' item;
          pub_date_elem = xfind ''pubDate'' item;
          source_elem = xfind ''source'' item
      in case (title_elem, link_elem) of
           (Some te, Some le) \<Rightarrow>
             Some \<lparr>item_title = or_empty (xtext te),
                   item_url = or_empty (xtext le),
                   source = (case source_elem of None \<Rightarrow> None | Some se \<Rightarrow> xtext se),
                   published_at =
                     (case pub_date_elem of
                        None \<Rightarrow> None
                      | Some pe \<Rightarrow>
                          (case xtext pe of
                             None \<Rightarrow> None
                           | Some s \<Rightarrow> if s \<noteq> [] then parse_date e s else None)),
                   snippet =
                     (case xfind ''description'' item of
                        None \<Rightarrow> None
                      | Some de \<Rightarrow>
                          (case xtext de of
                             None \<Rightarrow> None
                           | Some s \<Rightarrow> if s \<noteq> [] then Some (take 200 (strip_tags s)) else None))\<rparr>
         | _ \<Rightarrow> None)"

fun items_loop :: "env \<Rightarrow> xml list \<Rightarrow> NewsItem list \<Rightarrow> NewsItem list" where
  "items_loop e [] acc = acc"
| "items_loop e (item # rest) acc =
     (case parse_item e item of
        None \<Rightarrow> items_loop e rest acc
      | Some ni \<Rightarrow> items_loop e rest (acc @ [ni]))"

text \<open>\<open>fromstring e s = None\<close> stands for \<open>ElementTree.ParseError\<close>, which \<open>_parse_rss\<close> catches.\<close>

definition parse_rss :: "env \<Rightarrow> string \<Rightarrow> NewsItem list" where
  "parse_rss e xml_content =
     (case fromstring e xml_content of
        None \<Rightarrow> []
      | Some rt \<Rightarrow>
          (case xfind ''channel'' rt of
             None \<Rightarrow> []
           | Some channel \<Rightarrow> items_loop e (xfindall ''item'' channel) []))"

definition rss_url :: "env \<Rightarrow> Competitor \<Rightarrow> string" where
  "rss_url e competitor =
     ''https://news.google.com/rss/search?q='' @ quote_plus e (name competitor) @ ''&hl=en-US&gl=US&ceid=US:en''"

definition news_analyze ::
  "env \<Rightarrow> analyzer \<Rightarrow> Competitor \<Rightarrow> world \<Rightarrow> (exn + NewsAnalysisResult) \<times> analyzer \<times> world" where
  "news_analyze e self competitor w =
     (let (r, self', w') = fetch_url e self (rss_url e competitor) w
      in case r of
           Inl ex \<Rightarrow> (Inr NewsAnalysisResult_default, self', w')
         | Inr resp \<Rightarrow>
             (let its = parse_rss e (resp_text resp)
              in (Inr \<lparr>items = take 20 its, total_mentions = int (length its)\<rparr>, self', w')))"

section \<open>Social extractor (analyzers/social.py)\<close>

definition analyze_twitter :: "string \<Rightarrow> SocialProfile" where
  "analyze_twitter h =
     \<lparr>platform = ''twitter'', handle = CHR ''@'' # lstrip_chars ''@'' h, followers = None,
      following = None, posts_count = None, bio = None, verified = False\<rparr>"

definition analyze_linkedin :: "env \<Rightarrow> analyzer \<Rightarrow> string \<Rightarrow> world \<Rightarrow> SocialProfile \<times> analyzer \<times> world" where
  "analyze_linkedin e self profile_url w =
     (let (r, self', w') = fetch_url e self profile_url w
      in case r of
           Inl ex \<Rightarrow>
             (\<lparr>platform = ''linkedin'', handle = profile_url, followers = None, following = None,
               posts_count = None, bio = None, verified = False\<rparr>, self', w')
         | Inr resp \<Rightarrow>
             (let soup = parse_html e (resp_text resp);
                  about_section = find_by (\<lambda>n. tag_name n = Some ''section'' \<and>
                      (case get_attr n ''class'' of None \<Rightarrow> False
                       | Some v \<Rightarrow> list_ex (\<lambda>cl. sublist ''about'' cl) (words_of v))) soup;
                  b = (case about_section of None \<Rightarrow> None
                       | Some sec \<Rightarrow> Some (take 200 (get_text_strip sec)))
              in (\<lparr>platform = ''linkedin'', handle = profile_url, followers = None, following = None,
                   posts_count = None, bio = b, verified = False\<rparr>, self', w')))"

definition social_analyze ::
  "env \<Rightarrow> analyzer \<Rightarrow> Competitor \<Rightarrow> world \<Rightarrow> (exn + SocialAnalysisResult) \<times> analyzer \<times> world" where
  "social_analyze e self competitor w =
     (let ps1 = (case twitter competitor of
                   None \<Rightarrow> []
                 | Some h \<Rightarrow> if h \<noteq> [] then [analyze_twitter h] else [])
      in case linkedin competitor of
           None \<Rightarrow> (Inr \<lparr>profiles = ps1\<rparr>, self, w)
         | Some l \<Rightarrow>
             if l \<noteq> [] then
               (let (p, self', w') = analyze_linkedin e self l w
                in (Inr \<lparr>profiles = ps1 @ [p]\<rparr>, self', w'))
             else (Inr \<lparr>profiles = ps1\<rparr>, self, w))"

section \<open>Result aggregator (cli.py)\<close>

record analyzers =
  web_analyzer :: analyzer
  seo_analyzer :: analyzer
  news_analyzer :: analyzer
  social_analyzer :: analyzer

definition types_to_run :: "string option \<Rightarrow> bool \<Rightarrow> string list" where
  "types_to_run analysis_type run_all =
     (if run_all then [''web'', ''seo'', ''news'', ''social'']
      else (case analysis_type of
              None \<Rightarrow> []
            | Some t \<Rightarrow> if t \<noteq> [] then [t] else []))"

text \<open>
  One round of the loop of \<open>_run_analysis\<close>: look the analyzer up, run it, and either store
  its result in the slot or, on an exception, report it and go on (console output is not
  modelled).
\<close>

definition run_one ::
  "env \<Rightarrow> Competitor \<Rightarrow> string \<Rightarrow> AnalysisResult \<times> analyzers \<times> world \<Rightarrow>
   exn + (AnalysisResult \<times> analyzers \<times> world)" where
  "run_one e competitor atype st =
     (case st of (result, az, w) \<Rightarrow>
        if atype = ''web'' then
          (case web_analyze e (web_analyzer az) competitor w of
             (Inr r, a', w') \<Rightarrow> Inr (result\<lparr>web := r\<rparr>, az\<lparr>web_analyzer := a'\<rparr>, w')
           | (Inl ex, a', w') \<Rightarrow> Inr (result, az\<lparr>web_analyzer := a'\<rparr>, w'))
        else if atype = ''seo'' then
          (case seo_analyze e (seo_analyzer az) competitor w of
             (Inr r, a', w') \<Rightarrow> Inr (result\<lparr>seo := r\<rparr>, az\<lparr>seo_analyzer := a'\<rparr>, w')
           | (Inl ex, a', w') \<Rightarrow> Inr (result, az\<lparr>seo_analyzer := a'\<rparr>, w'))
        else if atype = ''news'' then
          (case news_analyze e (news_analyzer az) competitor w of
             (Inr r, a', w') \<Rightarrow> Inr (result\<lparr>news := Some r\<rparr>, az\<lparr>news_analyzer := a'\<rparr>, w')
           | (Inl ex, a', w') \<Rightarrow> Inr (result, az\<lparr>news_analyzer := a'\<rparr>, w'))
        else if atype = ''social'' then
          (case social_analyze e (social_analyzer az) competitor w of
             (Inr r, a', w') \<Rightarrow> Inr (result\<lparr>social := Some r\<rparr>, az\<lparr>social_analyzer := a'\<rparr>, w')
           | (Inl ex, a', w') \<Rightarrow> Inr (result, az\<lparr>social_analyzer := a'\<rparr>, w'))
        else Inl (KeyError atype))"

fun run_types ::
  "env \<Rightarrow> Competitor \<Rightarrow> string list \<Rightarrow> AnalysisResult \<times> analyzers \<times> world \<Rightarrow>
   exn + (AnalysisResult \<times> analyzers \<times> world)" where
  "run_types e competitor [] st = Inr st"
| "run_types e competitor (atype # rest) st =
     (case run_one e competitor atype st of
        Inl ex \<Rightarrow> Inl ex
      | Inr st' \<Rightarrow> run_types e competitor rest st')"

definition make_analyzers :: "filesystem \<Rightarrow> exn + analyzers" where
  "make_analyzers fs =
     (case BaseAnalyzer_init ''web'' fs of Inl ex \<Rightarrow> Inl ex | Inr wa \<Rightarrow>
      case BaseAnalyzer_init ''seo'' fs of Inl ex \<Rightarrow> Inl ex | Inr sa \<Rightarrow>
      case BaseAnalyzer_init ''news'' fs of Inl ex \<Rightarrow> Inl ex | Inr na \<Rightarrow>
      case BaseAnalyzer_init ''social'' fs of Inl ex \<Rightarrow> Inl ex | Inr so \<Rightarrow>
        Inr \<lparr>web_analyzer = wa, seo_analyzer = sa, news_analyzer = na, social_analyzer = so\<rparr>)"

definition run_analysis ::
  "env \<Rightarrow> filesystem \<Rightarrow> Competitor \<Rightarrow> string option \<Rightarrow> bool \<Rightarrow> world \<Rightarrow>
   exn + (AnalysisResult \<times> analyzers \<times> world)" where
  "run_analysis e fs competitor analysis_type run_all w =
     (let result = \<lparr>competitor_name = name competitor, analyzed_at = datetime_now e (clock w),
                     web = None, seo = None, news = None, social = None\<rparr>
      in case make_analyzers fs of
           Inl ex \<Rightarrow> Inl ex
         | Inr az \<Rightarrow> run_types e competitor (types_to_run analysis_type run_all) (result, az, w))"

section \<open>Exporters (exporters.py)\<close>

text \<open>
  \<open>export_csv\<close> is modelled by the rows it hands to \<open>csv.writer\<close>. \<open>datetime.isoformat\<close>
  and the float format \<open>:.2f\<close> are parameters.
\<close>

definition web_rows :: "(real \<Rightarrow> string) \<Rightarrow> WebAnalysisResult \<Rightarrow> string list list" where
  "web_rows fmt2f r =
     [[''Web'', ''Title'', or_empty (title r)],
      [''Web'', ''Description'', or_empty (description r)],
      [''Web'', ''Links Count'', str_int (links_count r)],
      [''Web'', ''Images Count'', str_int (images_count r)],
      [''Web'', ''Page Size (bytes)'', str_int (page_size_bytes r)],
      [''Web'', ''Load Time (ms)'', fmt2f (load_time_ms r)],
      [''Web'', ''Technologies'', join '', '' (technologies r)]]
     @ map (\<lambda>(i, heading). [''Web'', ''Heading '' @ str_nat (i + 1), heading])
         (enumerate 0 (take 10 (headings r)))"

definition seo_rows :: "SEOAnalysisResult \<Rightarrow> string list list" where
  "seo_rows r =
     [[''SEO'', ''Meta Title'', or_empty (meta_title r)],
      [''SEO'', ''Meta Description'', or_empty (meta_description r)],
      [''SEO'', ''Meta Keywords'', join '', '' (meta_keywords r)],
      [''SEO'', ''Canonical URL'', or_empty (canonical_url r)],
      [''SEO'', ''Robots'', or_empty (robots_meta r)]]
     @ map (\<lambda>(i, h1). [''SEO'', ''H1 '' @ str_nat (i + 1), h1]) (enumerate 0 (h1_tags r))
     @ map (\<lambda>(i, h2). [''SEO'', ''H2 '' @ str_nat (i + 1), h2]) (enumerate 0 (take 5 (h2_tags r)))
     @ map (\<lambda>(k, v). [''SEO'', ''OG: '' @ k, v]) (og_tags r)"

definition news_rows :: "NewsAnalysisResult \<Rightarrow> string list list" where
  "news_rows r =
     [[''News'', ''Total Mentions'', str_int (total_mentions r)]]
     @ concat (map (\<lambda>(i, item).
         [[''News'', ''Article '' @ str_nat (i + 1) @ '' Title'', item_title item],
          [''News'', ''Article '' @ str_nat (i + 1) @ '' URL'', item_url item],
          [''News'', ''Article '' @ str_nat (i + 1) @ '' Source'', or_empty (source item)]])
         (enumerate 0 (take 10 (items r))))"

definition profile_rows :: "SocialProfile \<Rightarrow> string list list" where
  "profile_rows p =
     (let pre = ''Social ('' @ platform p @ '')''
      in [[pre, ''Handle'', handle p]]
         @ (case followers p of None \<Rightarrow> [] | Some f \<Rightarrow> [[pre, ''Followers'', str_int f]])
         @ (case bio p of None \<Rightarrow> [] | Some b \<Rightarrow> if b \<noteq> [] then [[pre, ''Bio'', b]] else []))"

definition export_csv :: "(datetime \<Rightarrow> string) \<Rightarrow> (real \<Rightarrow> string) \<Rightarrow> AnalysisResult \<Rightarrow> string list list" where
  "export_csv isoformat fmt2f result =
     [[''Section'', ''Field'', ''Value''],
      [''Meta'', ''Competitor'', competitor_name result],
      [''Meta'', ''Analyzed At'', isoformat (analyzed_at result)]]
     @ (case web result of None \<Rightarrow> [] | Some r \<Rightarrow> web_rows fmt2f r)
     @ (case seo result of None \<Rightarrow> [] | Some r \<Rightarrow> seo_rows r)
     @ (case news result of None \<Rightarrow> [] | Some r \<Rightarrow> news_rows r)
     @ (case social result of None \<Rightarrow> [] | Some r \<Rightarrow> concat (map profile_rows (profiles r)))"

text \<open>Concrete inputs used to exercise the registry.\<close>

definition epoch :: datetime where
  "epoch = \<lparr>dt_year = 2024, dt_month = 1, dt_day = 1, dt_hour = 0, dt_minute = 0, dt_second = 0,
            dt_microsecond = 0, dt_utcoffset = None\<rparr>"

definition acme :: Competitor where
  "acme = \<lparr>name = ''Acme'', url = Some ''https://acme.test'', twitter = None, linkedin = None,
           created_at = epoch\<rparr>"

definition fs_empty :: filesystem where
  "fs_empty = \<lparr>CONFIG_FILE = Absent, writes = 0\<rparr>"

definition fs_acme :: filesystem where
  "fs_acme = \<lparr>CONFIG_FILE = Stored (Config_default\<lparr>competitors := [(''Acme'', acme)]\<rparr>), writes = 1\<rparr>"

section \<open>Derived notions and concrete inputs for the extractors\<close>

text \<open>The time at which \<open>fetch_url\<close> issues its GET: the clock when \<open>_rate_limit\<close> returns.\<close>

definition issue_time :: "analyzer \<Rightarrow> world \<Rightarrow> real" where
  "issue_time self w = clock (snd (rate_limit self w))"

definition page_html :: string where
  \<open>page_html = ''<html><head><title>Acme</title><meta name="keywords" content="a, b, c"></head>'' @
               ''<body><h2>Products</h2><h1>Acme</h1><h2>Contact</h2></body></html>''\<close>

definition page_soup :: node where
  "page_soup =
     Element ''[document]'' []
       [Element ''html'' []
          [Element ''head'' []
             [Element ''title'' [] [Text ''Acme''],
              Element ''meta'' [(''name'', ''keywords''), (''content'', ''a, b, c'')] []],
           Element ''body'' []
             [Element ''h2'' [] [Text ''Products''],
              Element ''h1'' [] [Text ''Acme''],
              Element ''h2'' [] [Text ''Contact'']]]]"

definition page_response :: response where
  "page_response = \<lparr>status_code = 200, resp_text = page_html, content_len = 144\<rparr>"

text \<open>An environment in which every GET takes a fifth of a second and has the given outcome.\<close>

definition env_with :: "response option \<Rightarrow> env" where
  "env_with r =
     \<lparr>http_get = (\<lambda>u t. (1 / 5, r)),
      parse_html = (\<lambda>s. page_soup),
      fromstring = (\<lambda>s. None),
      json_loads = (\<lambda>s. None),
      strptime = (\<lambda>s fmt. None),
      quote_plus = (\<lambda>s. s),
      datetime_now = (\<lambda>t. epoch)\<rparr>"

definition env_demo :: env where
  "env_demo = env_with (Some page_response)"

definition analyzer0 :: "string \<Rightarrow> analyzer" where
  "analyzer0 nm = \<lparr>analyzer_name = nm, config = Config_default, last_request_time = 0\<rparr>"

definition world0 :: world where
  "world0 = \<lparr>clock = 100, requests = []\<rparr>"

definition no_url :: Competitor where
  "no_url = \<lparr>name = ''Acme'', url = None, twitter = None, linkedin = None, created_at = epoch\<rparr>"





definition script_html :: string where
  "script_html = ''<script src=/static/jQuery.min.js></script>''"

section \<open>Properties as the specification words them\<close>

text \<open>
  A signature occurs in a document under case-insensitive comparison when, at some position,
  the piece of the document of the signature's length equals the signature up to case.
\<close>

definition ci_occurs :: "string \<Rightarrow> string \<Rightarrow> bool" where
  "ci_occurs sig html = (\<exists>i \<in> {0..length html}. lower (take (length sig) (drop i html)) = lower sig)"

text \<open>
  The headings of a document in their order of appearance: the h1, h2 and h3 elements with
  non-empty text, each as the entry "level: text", in document order across the levels.
  \<open>of_level\<close> picks the entries of one level.
\<close>

definition is_heading :: "node \<Rightarrow> bool" where
  "is_heading n = (tag_name n = Some ''h1'' \<or> tag_name n = Some ''h2'' \<or> tag_name n = Some ''h3'')"

definition heading_entry :: "node \<Rightarrow> string" where
  "heading_entry n = or_empty (tag_name n) @ '': '' @ get_text_strip n"

definition headings_document_order :: "node \<Rightarrow> string list" where
  "headings_document_order soup =
     map heading_entry (filter (\<lambda>n. is_heading n \<and> get_text_strip n \<noteq> []) (descendants soup))"

definition of_level :: "string \<Rightarrow> string list \<Rightarrow> string list" where
  "of_level t entries = filter (\<lambda>entry. take 2 entry = t) entries"

text \<open>
  The rows the specification asks of the CSV export: for every non-null scalar field of a
  social profile or of a news item, exactly one row of its section carries the field's
  value. \<open>profile_scalar_values\<close> and \<open>item_scalar_values\<close> list those values as
  \<open>str\<close> renders them.
\<close>

definition opt_values :: "('a \<Rightarrow> string) \<Rightarrow> 'a option \<Rightarrow> string list" where
  "opt_values f x = (case x of None \<Rightarrow> [] | Some v \<Rightarrow> [f v])"

definition str_bool :: "bool \<Rightarrow> string" where
  "str_bool b = (if b then ''True'' else ''False'')"

definition profile_scalar_values :: "SocialProfile \<Rightarrow> string list" where
  "profile_scalar_values p =
     [handle p] @ opt_values str_int (followers p) @ opt_values str_int (following p) @
     opt_values str_int (posts_count p) @ opt_values id (bio p) @ [str_bool (verified p)]"

definition item_scalar_values :: "(datetime \<Rightarrow> string) \<Rightarrow> NewsItem \<Rightarrow> string list" where
  "item_scalar_values isoformat i =
     [item_title i, item_url i] @ opt_values id (source i) @
     opt_values isoformat (published_at i) @ opt_values id (snippet i)"

definition exported_once :: "string list list \<Rightarrow> string \<Rightarrow> string \<Rightarrow> bool" where
  "exported_once rows section v =
     (length (filter (\<lambda>row. case row of [s, f, x] \<Rightarrow> s = section \<and> x = v | _ \<Rightarrow> False) rows) = 1)"

text \<open>A result with one news item and one social profile, all of whose fields are set.\<close>

definition ex_profile :: SocialProfile where
  "ex_profile = \<lparr>platform = ''twitter'', handle = ''@acme'', followers = Some 1000,
     following = Some 12, posts_count = Some 345, bio = Some ''We make things'', verified = True\<rparr>"

definition ex_item :: NewsItem where
  "ex_item = \<lparr>item_title = ''Acme ships'', item_url = ''https://news.test/1'', source = Some ''Daily'',
     published_at = Some epoch, snippet = Some ''Acme ships today''\<rparr>"

definition ex_result :: AnalysisResult where
  "ex_result = \<lparr>competitor_name = ''Acme'', analyzed_at = epoch, web = None, seo = None,
     news = Some \<lparr>items = [ex_item], total_mentions = 1\<rparr>,
     social = Some \<lparr>profiles = [ex_profile]\<rparr>\<rparr>"

definition iso0 :: "datetime \<Rightarrow> string" where
  "iso0 d = ''2024-01-01T00:00:00''"

definition fmt0 :: "real \<Rightarrow> string" where
  "fmt0 x = ''0.00''"

text \<open>
  The spacing the specification asks of a request log: any two consecutive requests, whoever
  issued them, are at least the delay apart. \<open>requests_of_run\<close> is the log a run of
  \<open>_run_analysis\<close> leaves.
\<close>

fun min_spacing :: "real \<Rightarrow> (string \<times> string \<times> real) list \<Rightarrow> bool" where
  "min_spacing d [] = True"
| "min_spacing d [x] = True"
| "min_spacing d (x # y # rest) = (d \<le> snd (snd y) - snd (snd x) \<and> min_spacing d (y # rest))"

definition requests_of_run :: "exn + (AnalysisResult \<times> analyzers \<times> world) \<Rightarrow> (string \<times> string \<times> real) list" where
  "requests_of_run r = (case r of Inl ex \<Rightarrow> [] | Inr (res, az, w) \<Rightarrow> requests w)"

section \<open>Registry properties\<close>

lemma load_config_readable:
  "CONFIG_FILE fs \<noteq> Corrupt \<Longrightarrow> \<exists>cfg. load_config fs = Inr cfg"
  by (cases "CONFIG_FILE fs") (simp_all add: load_config_def)

lemma load_save_config [simp]: "load_config (save_config cfg fs) = Inr cfg"
  by (simp add: load_config_def save_config_def)

lemma get_after_add:
  "add_competitor c fs = Inr fs' \<Longrightarrow> get_competitor (name c) fs' = Inr (Some c)"
  by (auto simp: add_competitor_def get_competitor_def update_conv' split: sum.splits)

lemma key_in_update: "k \<in> fst ` set (AList.update k v al)"
  by (simp add: dom_update)

lemma remove_after_add:
  "add_competitor c fs = Inr fs' \<Longrightarrow>
   \<exists>fs''. remove_competitor (name c) fs' = Inr (True, fs'') \<and>
          get_competitor (name c) fs'' = Inr None"
  by (auto simp: add_competitor_def remove_competitor_def get_competitor_def delete_conv'
        key_in_update split: sum.splits)

text \<open>
  C9. Adding a competitor named "Acme" with URL "https://acme.test" to a readable registry
  succeeds; afterwards lookup by "Acme" returns that competitor, carrying the URL; removing
  "Acme" then succeeds with True and lookup by "Acme" returns None.
\<close>

theorem C9_add_lookup_remove:
  assumes "name c = ''Acme''" and "url c = Some ''https://acme.test''"
    and "CONFIG_FILE fs \<noteq> Corrupt"
  shows "\<exists>fs'. add_competitor c fs = Inr fs' \<and>
           (\<exists>e. map_of (stored_competitors fs') ''Acme'' = Some e
                \<and> url e = Some ''https://acme.test'') \<and>
           get_competitor ''Acme'' fs' = Inr (Some c) \<and>
           (\<exists>fs''. remove_competitor ''Acme'' fs' = Inr (True, fs'') \<and>
                   get_competitor ''Acme'' fs'' = Inr None)"
proof -
  from assms(3) obtain cfg where cfg: "load_config fs = Inr cfg"
    using load_config_readable by blast
  define fs' where "fs' = save_config (cfg\<lparr>competitors := AList.update (name c) c (competitors cfg)\<rparr>) fs"
  have add: "add_competitor c fs = Inr fs'"
    by (simp add: add_competitor_def cfg fs'_def)
  have stored: "map_of (stored_competitors fs') ''Acme'' = Some c"
    using assms(1) by (simp add: fs'_def save_config_def stored_competitors_def update_conv')
  from get_after_add [OF add] have get: "get_competitor ''Acme'' fs' = Inr (Some c)"
    using assms(1) by simp
  from remove_after_add [OF add] have rem:
    "\<exists>fs''. remove_competitor ''Acme'' fs' = Inr (True, fs'') \<and> get_competitor ''Acme'' fs'' = Inr None"
    using assms(1) by simp
  from add stored get rem assms(2) show ?thesis by blast
qed

theorem C9_add_lookup_remove_witness:
  "name acme = ''Acme'' \<and> url acme = Some ''https://acme.test'' \<and> CONFIG_FILE fs_empty \<noteq> Corrupt \<and>
   (\<exists>fs'. add_competitor acme fs_empty = Inr fs' \<and>
      (\<exists>e. map_of (stored_competitors fs') ''Acme'' = Some e \<and> url e = Some ''https://acme.test'') \<and>
      get_competitor ''Acme'' fs' = Inr (Some acme) \<and>
      (\<exists>fs''. remove_competitor ''Acme'' fs' = Inr (True, fs'') \<and>
              get_competitor ''Acme'' fs'' = Inr None))"
proof -
  have h: "name acme = ''Acme''" "url acme = Some ''https://acme.test''" "CONFIG_FILE fs_empty \<noteq> Corrupt"
    by (simp_all add: acme_def fs_empty_def)
  from C9_add_lookup_remove [OF h] h show ?thesis by blast
qed

text \<open>
  C10. On a readable registry, \<open>remove_competitor\<close> of a name that is not a key returns
  False and leaves the file system as it was (no write, same stored mapping); of a name that
  is a key it returns True after writing the file once, without that entry and with every
  other entry kept. It returns True exactly when the name was present.
\<close>

theorem C10_remove_competitor:
  assumes "load_config fs = Inr cfg"
  shows "(n \<notin> fst ` set (competitors cfg) \<longrightarrow> remove_competitor n fs = Inr (False, fs)) \<and>
         (n \<in> fst ` set (competitors cfg) \<longrightarrow>
            (\<exists>fs'. remove_competitor n fs = Inr (True, fs') \<and>
                   writes fs' = Suc (writes fs) \<and>
                   stored_competitors fs' = filter (\<lambda>(k, c). k \<noteq> n) (competitors cfg) \<and>
                   map_of (stored_competitors fs') = (map_of (competitors cfg))(n := None))) \<and>
         ((\<exists>fs'. remove_competitor n fs = Inr (True, fs')) \<longleftrightarrow> n \<in> fst ` set (competitors cfg))"
proof (cases "n \<in> fst ` set (competitors cfg)")
  case True
  have "stored_competitors (save_config (cfg\<lparr>competitors := AList.delete n (competitors cfg)\<rparr>) fs)
          = AList.delete n (competitors cfg)"
    by (simp add: stored_competitors_def save_config_def)
  moreover have "AList.delete n (competitors cfg) = filter (\<lambda>(k, c). k \<noteq> n) (competitors cfg)"
    by (induction "competitors cfg" arbitrary: cfg) (auto simp: AList.delete_eq intro: filter_cong)
  moreover have "map_of (AList.delete n (competitors cfg)) = (map_of (competitors cfg))(n := None)"
    by (rule delete_conv')
  moreover have "writes (save_config (cfg\<lparr>competitors := AList.delete n (competitors cfg)\<rparr>) fs) = Suc (writes fs)"
    by (simp add: save_config_def)
  ultimately show ?thesis
    using True assms by (simp add: remove_competitor_def)
next
  case False
  with assms show ?thesis by (simp add: remove_competitor_def)
qed

theorem C10_remove_competitor_witness:
  "load_config fs_acme = Inr (Config_default\<lparr>competitors := [(''Acme'', acme)]\<rparr>) \<and>
   remove_competitor ''Other'' fs_acme = Inr (False, fs_acme) \<and>
   remove_competitor ''Acme'' fs_acme =
     Inr (True, \<lparr>CONFIG_FILE = Stored Config_default, writes = 2\<rparr>)"
proof -
  have h: "load_config fs_acme = Inr (Config_default\<lparr>competitors := [(''Acme'', acme)]\<rparr>)"
    by (simp add: load_config_def fs_acme_def)
  from C10_remove_competitor [OF h, of "''Other''"]
  have a: "remove_competitor ''Other'' fs_acme = Inr (False, fs_acme)"
    by simp
  from C10_remove_competitor [OF h, of "''Acme''"]
  obtain fs' where r: "remove_competitor ''Acme'' fs_acme = Inr (True, fs')"
    by auto
  then have "fs' = \<lparr>CONFIG_FILE = Stored Config_default, writes = 2\<rparr>"
    by (simp add: remove_competitor_def load_config_def fs_acme_def save_config_def
        Config_default_def acme_def numeral_2_eq_2 eq_commute)
  with h a r show ?thesis by simp
qed

section \<open>Fetcher and extractor properties\<close>

lemma fetch_url_result:
  "fst (fetch_url e self u w) =
     (case snd (http_get e u (issue_time self w)) of
        None \<Rightarrow> Inl TransportError
      | Some resp \<Rightarrow> if 200 \<le> status_code resp \<and> status_code resp < 300 then Inr resp
                     else Inl (HTTPStatusError (status_code resp)))"
  by (simp add: fetch_url_def issue_time_def Let_def split: prod.splits)

text \<open>
  C6. For a competitor whose site URL is None, the web extractor and the SEO extractor both
  return None, without raising, and without touching the analyzer or the world (no request).
\<close>

theorem C6_no_url_absent:
  assumes "url competitor = None"
  shows "web_analyze e self1 competitor w = (Inr None, self1, w) \<and>
         seo_analyze e self2 competitor w = (Inr None, self2, w)"
  using assms by (simp add: web_analyze_def seo_analyze_def)

theorem C6_no_url_absent_witness:
  "url no_url = None \<and>
   web_analyze env_demo (analyzer0 ''web'') no_url world0 = (Inr None, analyzer0 ''web'', world0) \<and>
   seo_analyze env_demo (analyzer0 ''seo'') no_url world0 = (Inr None, analyzer0 ''seo'', world0)"
proof -
  have h: "url no_url = None" by (simp add: no_url_def)
  from C6_no_url_absent [OF h] h show ?thesis by blast
qed

lemma news_analyze_fst:
  "fst (news_analyze e self c w) =
     (case fst (fetch_url e self (rss_url e c) w) of
        Inl ex \<Rightarrow> Inr NewsAnalysisResult_default
      | Inr resp \<Rightarrow> Inr \<lparr>items = take 20 (parse_rss e (resp_text resp)),
                         total_mentions = int (length (parse_rss e (resp_text resp)))\<rparr>)"
  by (simp add: news_analyze_def Let_def split: prod.splits sum.splits)

text \<open>
  C4. The news extractor always returns a result and never an exception. When the GET of the
  feed fails in transport, or comes back with a status outside 2xx, or its body is not
  well-formed XML, the result is the empty \<open>NewsAnalysisResult\<close>: no items and
  \<open>total_mentions\<close> zero.
\<close>

theorem C4_news_failure_empty:
  fixes e self c w
  defines "outcome \<equiv> snd (http_get e (rss_url e c) (issue_time self w))"
  shows "\<exists>r. fst (news_analyze e self c w) = Inr r \<and>
           (outcome = None \<longrightarrow> r = NewsAnalysisResult_default) \<and>
           (\<forall>resp. outcome = Some resp \<and> \<not> (200 \<le> status_code resp \<and> status_code resp < 300)
                \<longrightarrow> r = NewsAnalysisResult_default) \<and>
           (\<forall>resp. outcome = Some resp \<and> fromstring e (resp_text resp) = None
                \<longrightarrow> r = NewsAnalysisResult_default) \<and>
           (r = NewsAnalysisResult_default \<longrightarrow> items r = [] \<and> total_mentions r = 0)"
  unfolding outcome_def
  by (auto simp: news_analyze_fst fetch_url_result parse_rss_def NewsAnalysisResult_default_def
      split: option.splits sum.splits)

theorem C4_news_failure_empty_witness:
  "snd (http_get (env_with None) (rss_url (env_with None) acme) (issue_time (analyzer0 ''news'') world0)) = None \<and>
   fst (news_analyze (env_with None) (analyzer0 ''news'') acme world0) = Inr NewsAnalysisResult_default \<and>
   \<not> (200 \<le> status_code (page_response\<lparr>status_code := 500\<rparr>) \<and>
       status_code (page_response\<lparr>status_code := 500\<rparr>) < 300) \<and>
   fst (news_analyze (env_with (Some (page_response\<lparr>status_code := 500\<rparr>))) (analyzer0 ''news'') acme world0)
     = Inr NewsAnalysisResult_default \<and>
   fromstring env_demo (resp_text page_response) = None \<and>
   fst (news_analyze env_demo (analyzer0 ''news'') acme world0) = Inr NewsAnalysisResult_default \<and>
   items NewsAnalysisResult_default = [] \<and> total_mentions NewsAnalysisResult_default = 0"
proof -
  have a: "snd (http_get (env_with None) u t) = None" for u t
    by (simp add: env_with_def)
  have b: "snd (http_get (env_with (Some r)) u t) = Some r" for r u t
    by (simp add: env_with_def)
  have c: "fromstring env_demo x = None" for x
    by (simp add: env_demo_def env_with_def)
  have s: "status_code (page_response\<lparr>status_code := 500\<rparr>) = 500"
    by simp
  from C4_news_failure_empty [of "env_with None" "analyzer0 ''news''" acme world0] a
  have 1: "fst (news_analyze (env_with None) (analyzer0 ''news'') acme world0) = Inr NewsAnalysisResult_default"
    by auto
  from C4_news_failure_empty [of "env_with (Some (page_response\<lparr>status_code := 500\<rparr>))" "analyzer0 ''news''" acme world0] b s
  have 2: "fst (news_analyze (env_with (Some (page_response\<lparr>status_code := 500\<rparr>))) (analyzer0 ''news'') acme world0)
             = Inr NewsAnalysisResult_default"
    by auto
  from C4_news_failure_empty [of env_demo "analyzer0 ''news''" acme world0] b c
  have 3: "fst (news_analyze env_demo (analyzer0 ''news'') acme world0) = Inr NewsAnalysisResult_default"
    by (auto simp: env_demo_def)
  from C4_news_failure_empty [of env_demo "analyzer0 ''news''" acme world0] 3
  have 4: "items NewsAnalysisResult_default = [] \<and> total_mentions NewsAnalysisResult_default = 0"
    by auto
  from a 1 s 2 c 3 4 show ?thesis by simp
qed





lemma sublist_map_iff:
  "sublist (map f xs) (map f ys) \<longleftrightarrow>
     (\<exists>i \<in> {0..length ys}. map f (take (length xs) (drop i ys)) = map f xs)"
proof
  assume "sublist (map f xs) (map f ys)"
  then obtain ps ss where eq: "map f ys = ps @ map f xs @ ss"
    by (auto simp: sublist_def)
  have len: "length ps \<le> length ys"
    using arg_cong [OF eq, of length] by simp
  have "map f (take (length xs) (drop (length ps) ys)) = take (length xs) (drop (length ps) (map f ys))"
    by (simp add: take_map drop_map)
  also have "\<dots> = map f xs"
    by (simp add: eq)
  finally show "\<exists>i \<in> {0..length ys}. map f (take (length xs) (drop i ys)) = map f xs"
    using len by auto
next
  assume "\<exists>i \<in> {0..length ys}. map f (take (length xs) (drop i ys)) = map f xs"
  then obtain i where i: "map f (take (length xs) (drop i ys)) = map f xs"
    by blast
  have "ys = take i ys @ take (length xs) (drop i ys) @ drop (length xs) (drop i ys)"
    by (simp only: append_take_drop_id)
  then have "map f ys = map f (take i ys) @ map f xs @ map f (drop (length xs) (drop i ys))"
    by (metis i map_append)
  then show "sublist (map f xs) (map f ys)"
    by (metis sublist_appendI)
qed

lemma in_lower_iff: "sublist (lower sig) (lower html) \<longleftrightarrow> ci_occurs sig html"
  unfolding lower_def ci_occurs_def by (rule sublist_map_iff)

lemma scan_signatures_set:
  "set (scan_signatures tech sigs hl acc) =
     set acc \<union> (if \<exists>sig \<in> set sigs. sublist (lower sig) hl then {tech} else {})"
  by (induction sigs) auto

lemma scan_technologies_set:
  "set (scan_technologies ts hl acc) =
     set acc \<union> {tech. \<exists>sigs. (tech, sigs) \<in> set ts \<and> (\<exists>sig \<in> set sigs. sublist (lower sig) hl)}"
  by (induction ts hl acc rule: scan_technologies.induct) (auto simp: scan_signatures_set split: if_splits)

lemma count_list_distinct: "distinct xs \<Longrightarrow> count_list xs x = (if x \<in> set xs then 1 else 0)"
  by (induction xs) auto

text \<open>
  C7. Technology detection depends on the HTML text only (the parsed tree is not used), so
  running it again on the same text gives the same result. A technology is in the result if
  and only if one of its signatures occurs somewhere in the text under case-insensitive
  comparison, and then it is there exactly once.
\<close>

theorem C7_detect_technologies:
  "detect_technologies soup' html = detect_technologies soup html \<and>
   (tech \<in> set (detect_technologies soup html) \<longleftrightarrow>
      (\<exists>sigs. (tech, sigs) \<in> set tech_signatures \<and> (\<exists>sig \<in> set sigs. ci_occurs sig html))) \<and>
   count_list (detect_technologies soup html) tech =
      (if \<exists>sigs. (tech, sigs) \<in> set tech_signatures \<and> (\<exists>sig \<in> set sigs. ci_occurs sig html)
       then 1 else 0)"
proof -
  have m: "tech \<in> set (detect_technologies soup html) \<longleftrightarrow>
      (\<exists>sigs. (tech, sigs) \<in> set tech_signatures \<and> (\<exists>sig \<in> set sigs. ci_occurs sig html))"
    by (simp add: detect_technologies_def scan_technologies_set in_lower_iff)
  have d: "distinct (detect_technologies soup html)"
    by (simp add: detect_technologies_def)
  show ?thesis
    using m count_list_distinct [OF d, of tech] by (simp add: detect_technologies_def)
qed

theorem C7_detect_technologies_witness:
  "(''jQuery'', [''jquery'', ''jQuery'']) \<in> set tech_signatures \<and>
   ci_occurs ''jquery'' script_html \<and>
   ''jQuery'' \<in> set (detect_technologies page_soup script_html) \<and>
   count_list (detect_technologies page_soup script_html) ''jQuery'' = 1 \<and>
   \<not> (\<exists>sigs. (''PHP'', sigs) \<in> set tech_signatures \<and> (\<exists>sig \<in> set sigs. ci_occurs sig script_html)) \<and>
   count_list (detect_technologies page_soup script_html) ''PHP'' = 0"
proof -
  have h1: "(''jQuery'', [''jquery'', ''jQuery'']) \<in> set tech_signatures"
    by (simp add: tech_signatures_def)
  have h2: "ci_occurs ''jquery'' script_html"
    by code_simp
  have ex: "\<exists>sigs. (''jQuery'', sigs) \<in> set tech_signatures \<and> (\<exists>sig \<in> set sigs. ci_occurs sig script_html)"
    using h1 h2 by (intro exI [of _ "[''jquery'', ''jQuery'']"]) simp
  have no: "\<not> (\<exists>sigs. (''PHP'', sigs) \<in> set tech_signatures \<and> (\<exists>sig \<in> set sigs. ci_occurs sig script_html))"
    by (simp add: tech_signatures_def)
  from C7_detect_technologies [of page_soup script_html page_soup "''jQuery''"] ex
  have a: "''jQuery'' \<in> set (detect_technologies page_soup script_html) \<and>
           count_list (detect_technologies page_soup script_html) ''jQuery'' = 1"
    by simp
  from C7_detect_technologies [of page_soup script_html page_soup "''PHP''"] no
  have b: "count_list (detect_technologies page_soup script_html) ''PHP'' = 0"
    by simp
  from h1 h2 a no b show ?thesis by simp
qed

lemma seo_analyze_success:
  assumes "url c = Some u" and "fst (fetch_url e self u w) = Inr resp"
  shows "\<exists>r. fst (seo_analyze e self c w) = Inr (Some r) \<and>
           h2_tags r = take 10 (map get_text_strip (find_all ''h2'' (parse_html e (resp_text resp)))) \<and>
           meta_keywords r = extract_keywords (parse_html e (resp_text resp))"
  using assms by (auto simp: seo_analyze_def Let_def split: prod.splits)

lemma keywords_abc:
  assumes "find_attr ''meta'' ''name'' ''keywords'' soup = Some m"
    and "get_attr m ''content'' = Some ''a, b, c''"
  shows "extract_keywords soup = [''a'', ''b'', ''c'']"
  using assms by (simp add: extract_keywords_def attr_of_found_def strip_def isspace_def)

text \<open>
  C8. When the SEO extractor fetches a competitor's page successfully, \<open>h2_tags\<close> is the
  first 10 H2 texts in document order. For a page with exactly two h2 elements it has length
  2, and when the keywords meta tag has content "a, b, c", \<open>meta_keywords\<close> is
  ["a", "b", "c"].
\<close>

theorem C8_seo_keywords_h2:
  fixes e self c w u resp
  defines "soup \<equiv> parse_html e (resp_text resp)"
  assumes "url c = Some u" and "fst (fetch_url e self u w) = Inr resp"
  shows "\<exists>r. fst (seo_analyze e self c w) = Inr (Some r) \<and>
           h2_tags r = take 10 (map get_text_strip (find_all ''h2'' soup)) \<and>
           length (h2_tags r) \<le> 10 \<and>
           (length (find_all ''h2'' soup) = 2 \<longrightarrow> length (h2_tags r) = 2) \<and>
           (\<forall>m. find_attr ''meta'' ''name'' ''keywords'' soup = Some m \<and>
                get_attr m ''content'' = Some ''a, b, c'' \<longrightarrow> meta_keywords r = [''a'', ''b'', ''c''])"
proof -
  from seo_analyze_success [OF assms(2,3)] obtain r where
    r: "fst (seo_analyze e self c w) = Inr (Some r)"
    and h2: "h2_tags r = take 10 (map get_text_strip (find_all ''h2'' soup))"
    and kw: "meta_keywords r = extract_keywords soup"
    unfolding soup_def by blast
  have "length (h2_tags r) \<le> 10" by (simp add: h2)
  moreover have "length (find_all ''h2'' soup) = 2 \<longrightarrow> length (h2_tags r) = 2"
    by (simp add: h2)
  moreover have "\<forall>m. find_attr ''meta'' ''name'' ''keywords'' soup = Some m \<and>
                get_attr m ''content'' = Some ''a, b, c'' \<longrightarrow> meta_keywords r = [''a'', ''b'', ''c'']"
    using keywords_abc kw by simp
  ultimately show ?thesis using r h2 by blast
qed

lemma fetch_demo: "fst (fetch_url env_demo self u w) = Inr page_response"
  by (simp add: fetch_url_result env_demo_def env_with_def page_response_def)

lemma parse_demo: "parse_html env_demo x = page_soup"
  by (simp add: env_demo_def env_with_def)

lemma h2_demo: "find_all ''h2'' page_soup = [Element ''h2'' [] [Text ''Products''], Element ''h2'' [] [Text ''Contact'']]"
  by (simp add: find_all_def find_all_by_def page_soup_def)

lemma kw_demo: "find_attr ''meta'' ''name'' ''keywords'' page_soup =
    Some (Element ''meta'' [(''name'', ''keywords''), (''content'', ''a, b, c'')] [])"
  by (simp add: find_attr_def find_by_def find_all_by_def page_soup_def)

theorem C8_seo_keywords_h2_witness:
  "url acme = Some ''https://acme.test'' \<and>
   fst (fetch_url env_demo (analyzer0 ''seo'') ''https://acme.test'' world0) = Inr page_response \<and>
   length (find_all ''h2'' (parse_html env_demo (resp_text page_response))) = 2 \<and>
   find_attr ''meta'' ''name'' ''keywords'' (parse_html env_demo (resp_text page_response)) =
     Some (Element ''meta'' [(''name'', ''keywords''), (''content'', ''a, b, c'')] []) \<and>
   (\<exists>r. fst (seo_analyze env_demo (analyzer0 ''seo'') acme world0) = Inr (Some r) \<and>
        meta_keywords r = [''a'', ''b'', ''c''] \<and> length (h2_tags r) = 2 \<and>
        h2_tags r = [''Products'', ''Contact''])"
proof -
  have u: "url acme = Some ''https://acme.test''"
    by (simp add: acme_def)
  have f: "fst (fetch_url env_demo (analyzer0 ''seo'') ''https://acme.test'' world0) = Inr page_response"
    by (rule fetch_demo)
  have l: "length (find_all ''h2'' (parse_html env_demo (resp_text page_response))) = 2"
    by (simp add: parse_demo h2_demo)
  have k: "find_attr ''meta'' ''name'' ''keywords'' (parse_html env_demo (resp_text page_response)) =
     Some (Element ''meta'' [(''name'', ''keywords''), (''content'', ''a, b, c'')] [])"
    by (simp add: parse_demo kw_demo)
  have g: "get_attr (Element ''meta'' [(''name'', ''keywords''), (''content'', ''a, b, c'')] []) ''content''
      = Some ''a, b, c''"
    by simp
  from C8_seo_keywords_h2 [OF u f] obtain r where
    r: "fst (seo_analyze env_demo (analyzer0 ''seo'') acme world0) = Inr (Some r)"
    and h2: "h2_tags r = take 10 (map get_text_strip (find_all ''h2'' (parse_html env_demo (resp_text page_response))))"
    and len: "length (find_all ''h2'' (parse_html env_demo (resp_text page_response))) = 2 \<longrightarrow> length (h2_tags r) = 2"
    and kw: "\<forall>m. find_attr ''meta'' ''name'' ''keywords'' (parse_html env_demo (resp_text page_response)) = Some m \<and>
                get_attr m ''content'' = Some ''a, b, c'' \<longrightarrow> meta_keywords r = [''a'', ''b'', ''c'']"
    by blast
  from kw k g have 1: "meta_keywords r = [''a'', ''b'', ''c'']" by blast
  from len l have 2: "length (h2_tags r) = 2" by blast
  from h2 have 3: "h2_tags r = [''Products'', ''Contact'']"
    by (simp add: parse_demo h2_demo get_text_strip_def strip_def isspace_def)
  from u f l k r 1 2 3 show ?thesis by blast
qed

lemma headings_of_tag_eq:
  "headings_of_tag t ns hs =
     hs @ map (\<lambda>n. t @ '': '' @ get_text_strip n) (filter (\<lambda>n. get_text_strip n \<noteq> []) ns)"
  by (induction ns arbitrary: hs) (simp_all add: Let_def)

lemma headings_loop_eq:
  "headings_loop ts soup hs =
     hs @ concat (map (\<lambda>t. map (\<lambda>n. t @ '': '' @ get_text_strip n)
                        (filter (\<lambda>n. get_text_strip n \<noteq> []) (find_all t soup))) ts)"
  by (induction ts arbitrary: hs) (simp_all add: headings_of_tag_eq)

lemma of_level_document_order:
  assumes "t = ''h1'' \<or> t = ''h2'' \<or> t = ''h3''"
  shows "of_level t (headings_document_order soup) =
         map (\<lambda>n. t @ '': '' @ get_text_strip n)
           (filter (\<lambda>n. get_text_strip n \<noteq> []) (find_all t soup))"
proof -
  have "of_level t (map heading_entry (filter (\<lambda>n. is_heading n \<and> get_text_strip n \<noteq> []) ds)) =
        map (\<lambda>n. t @ '': '' @ get_text_strip n)
          (filter (\<lambda>n. get_text_strip n \<noteq> []) (filter (\<lambda>n. tag_name n = Some t) ds))" for ds
    using assms
    by (induction ds) (auto simp: of_level_def heading_entry_def is_heading_def)
  then show ?thesis
    by (simp add: headings_document_order_def find_all_def find_all_by_def)
qed

lemma extract_headings_by_level:
  "extract_headings soup =
     of_level ''h1'' (headings_document_order soup) @
     of_level ''h2'' (headings_document_order soup) @
     of_level ''h3'' (headings_document_order soup)"
  by (simp add: extract_headings_def headings_loop_eq of_level_document_order)

lemma web_analyze_success:
  assumes "url c = Some u" and "fst (fetch_url e self u w) = Inr resp"
  shows "\<exists>r. fst (web_analyze e self c w) = Inr (Some r) \<and>
           headings r = take 20 (extract_headings (parse_html e (resp_text resp)))"
  using assms by (auto simp: web_analyze_def Let_def split: prod.splits)

lemma document_order_entries:
  "h \<in> set (headings_document_order soup) \<Longrightarrow>
   \<exists>n \<in> set (descendants soup). is_heading n \<and> get_text_strip n \<noteq> [] \<and> h = heading_entry n"
  by (auto simp: headings_document_order_def)

text \<open>
  C2 (as the code has it). When the web extractor fetches a page successfully, its headings
  list is grouped by level: the entries of the h1 elements first, then those of the h2
  elements, then those of the h3 elements, each group in document order; the list is the
  first 20 entries of that grouped list; every entry is "level: text" for an h1, h2 or h3
  element of the document with non-empty text.
\<close>

theorem C2_headings_grouped_by_level:
  fixes e self c w u resp
  defines "soup \<equiv> parse_html e (resp_text resp)"
  assumes "url c = Some u" and "fst (fetch_url e self u w) = Inr resp"
  shows "\<exists>r. fst (web_analyze e self c w) = Inr (Some r) \<and>
           headings r = take 20 (of_level ''h1'' (headings_document_order soup) @
                                 of_level ''h2'' (headings_document_order soup) @
                                 of_level ''h3'' (headings_document_order soup)) \<and>
           length (headings r) \<le> 20 \<and>
           (\<forall>h \<in> set (headings r). \<exists>n \<in> set (descendants soup).
               is_heading n \<and> get_text_strip n \<noteq> [] \<and> h = heading_entry n)"
proof -
  from web_analyze_success [OF assms(2,3)] obtain r where
    r: "fst (web_analyze e self c w) = Inr (Some r)"
    and hs: "headings r = take 20 (extract_headings soup)"
    unfolding soup_def by blast
  have grouped: "headings r = take 20 (of_level ''h1'' (headings_document_order soup) @
                                 of_level ''h2'' (headings_document_order soup) @
                                 of_level ''h3'' (headings_document_order soup))"
    by (simp only: hs extract_headings_by_level)
  have len: "length (headings r) \<le> 20"
    by (simp add: hs)
  have sub: "set (headings r) \<subseteq> set (headings_document_order soup)"
    unfolding grouped of_level_def using set_take_subset by fastforce
  have ent: "\<forall>h \<in> set (headings r). \<exists>n \<in> set (descendants soup).
               is_heading n \<and> get_text_strip n \<noteq> [] \<and> h = heading_entry n"
    using sub document_order_entries by blast
  from r grouped len ent show ?thesis by blast
qed

lemma doc_order_demo:
  "headings_document_order page_soup = [''h2: Products'', ''h1: Acme'', ''h2: Contact'']"
  by (simp add: headings_document_order_def page_soup_def is_heading_def heading_entry_def
      get_text_strip_def strip_def isspace_def)

theorem C2_headings_grouped_by_level_witness:
  "url acme = Some ''https://acme.test'' \<and>
   fst (fetch_url env_demo (analyzer0 ''web'') ''https://acme.test'' world0) = Inr page_response \<and>
   (\<exists>r. fst (web_analyze env_demo (analyzer0 ''web'') acme world0) = Inr (Some r) \<and>
        headings r = [''h1: Acme'', ''h2: Products'', ''h2: Contact''])"
proof -
  have u: "url acme = Some ''https://acme.test''"
    by (simp add: acme_def)
  have f: "fst (fetch_url env_demo (analyzer0 ''web'') ''https://acme.test'' world0) = Inr page_response"
    by (rule fetch_demo)
  from C2_headings_grouped_by_level [OF u f] obtain r where
    r: "fst (web_analyze env_demo (analyzer0 ''web'') acme world0) = Inr (Some r)"
    and hs: "headings r =
       take 20 (of_level ''h1'' (headings_document_order (parse_html env_demo (resp_text page_response))) @
                of_level ''h2'' (headings_document_order (parse_html env_demo (resp_text page_response))) @
                of_level ''h3'' (headings_document_order (parse_html env_demo (resp_text page_response))))"
    by blast
  from hs have "headings r = [''h1: Acme'', ''h2: Products'', ''h2: Contact'']"
    by (simp add: parse_demo doc_order_demo of_level_def)
  with u f r show ?thesis by blast
qed

text \<open>
  C2 as stated fails: on a page whose body is h2 "Products", h1 "Acme", h2 "Contact", the
  headings in order of appearance start with the h2, and the extractor returns the h1 first.
\<close>

theorem C2_document_order_counterexample:
  "take 20 (headings_document_order page_soup) = [''h2: Products'', ''h1: Acme'', ''h2: Contact''] \<and>
   take 20 (extract_headings page_soup) = [''h1: Acme'', ''h2: Products'', ''h2: Contact''] \<and>
   (\<exists>r. fst (web_analyze env_demo (analyzer0 ''web'') acme world0) = Inr (Some r) \<and>
        headings r \<noteq> take 20 (headings_document_order (parse_html env_demo (resp_text page_response))))"
proof -
  have a: "take 20 (headings_document_order page_soup) = [''h2: Products'', ''h1: Acme'', ''h2: Contact'']"
    by (simp add: doc_order_demo)
  have b: "take 20 (extract_headings page_soup) = [''h1: Acme'', ''h2: Products'', ''h2: Contact'']"
    by (simp add: extract_headings_by_level doc_order_demo of_level_def)
  have u: "url acme = Some ''https://acme.test''"
    by (simp add: acme_def)
  from web_analyze_success [OF u fetch_demo] obtain r where
    r: "fst (web_analyze env_demo (analyzer0 ''web'') acme world0) = Inr (Some r)"
    and hs: "headings r = take 20 (extract_headings (parse_html env_demo (resp_text page_response)))"
    by blast
  from hs a b have "headings r \<noteq> take 20 (headings_document_order (parse_html env_demo (resp_text page_response)))"
    by (simp add: parse_demo)
  with a b r show ?thesis by blast
qed

lemma ex_rows:
  "export_csv iso0 fmt0 ex_result =
     [[''Section'', ''Field'', ''Value''],
      [''Meta'', ''Competitor'', ''Acme''],
      [''Meta'', ''Analyzed At'', ''2024-01-01T00:00:00''],
      [''News'', ''Total Mentions'', ''1''],
      [''News'', ''Article 1 Title'', ''Acme ships''],
      [''News'', ''Article 1 URL'', ''https://news.test/1''],
      [''News'', ''Article 1 Source'', ''Daily''],
      [''Social (twitter)'', ''Handle'', ''@acme''],
      [''Social (twitter)'', ''Followers'', ''1000''],
      [''Social (twitter)'', ''Bio'', ''We make things'']]"
  by code_simp

lemma enumerate_map: "enumerate n (map f xs) = map (\<lambda>(i, x). (i, f x)) (enumerate n xs)"
  by (induction xs arbitrary: n) simp_all

lemma length_concat3:
  "length (concat (map (\<lambda>(i, item). [a i item, b i item, c i item]) xs)) = 3 * length xs"
  by (induction xs) auto

lemma length_web_rows: "length (web_rows f x) = 7 + min 10 (length (headings x))"
  by (simp add: web_rows_def)

lemma length_seo_rows:
  "length (seo_rows x) = 5 + length (h1_tags x) + min 5 (length (h2_tags x)) + length (og_tags x)"
  by (simp add: seo_rows_def)

lemma length_news_rows: "length (news_rows x) = 1 + 3 * min 10 (length (items x))"
  by (simp add: news_rows_def length_concat3)

lemma length_profile_rows:
  "length (profile_rows p) = 1 + (if followers p = None then 0 else 1) + (if truthy (bio p) then 1 else 0)"
  by (cases "followers p"; cases "bio p") (simp_all add: profile_rows_def Let_def)

lemma length_concat_map: "length (concat (map f xs)) = sum_list (map (\<lambda>x. length (f x)) xs)"
  by (induction xs) simp_all

lemma news_rows_unexported:
  "news_rows (n\<lparr>items := map (\<lambda>i. i\<lparr>published_at := d i, snippet := g i\<rparr>) (items n)\<rparr>) = news_rows n"
  by (simp add: news_rows_def take_map enumerate_map split_def comp_def)

lemma profile_rows_unexported:
  "profile_rows (p\<lparr>following := a, posts_count := b, verified := c\<rparr>) = profile_rows p"
  by (simp add: profile_rows_def)

lemma seo_rows_unexported: "seo_rows (x\<lparr>structured_data := sd\<rparr>) = seo_rows x"
  by (simp add: seo_rows_def)

lemma enumerate_index:
  "map (\<lambda>(i, x). F i x) (enumerate 0 xs) = map (\<lambda>i. F i (xs ! i)) [0..<length xs]"
proof (rule nth_equalityI)
  show "length (map (\<lambda>(i, x). F i x) (enumerate 0 xs)) = length (map (\<lambda>i. F i (xs ! i)) [0..<length xs])"
    by simp
next
  fix i
  assume "i < length (map (\<lambda>(i, x). F i x) (enumerate 0 xs))"
  then have "i < length xs" by simp
  then show "map (\<lambda>(i, x). F i x) (enumerate 0 xs) ! i = map (\<lambda>i. F i (xs ! i)) [0..<length xs] ! i"
    by (simp add: nth_enumerate_eq)
qed

lemma enumerate_take_index:
  "map (\<lambda>(i, x). F i x) (enumerate 0 (take k xs)) = map (\<lambda>i. F i (xs ! i)) [0..<min k (length xs)]"
proof -
  have "map (\<lambda>i. F i (take k xs ! i)) [0..<length (take k xs)] =
        map (\<lambda>i. F i (xs ! i)) [0..<min k (length xs)]"
    by (rule map_cong) (simp_all add: min.commute)
  then show ?thesis
    by (simp only: enumerate_index)
qed

lemma or_empty_case: "or_empty v = (case v of None \<Rightarrow> [] | Some s \<Rightarrow> s)"
  by (cases v) simp_all

lemma web_rows_explicit:
  "web_rows f x =
     [[''Web'', ''Title'', (case title x of None \<Rightarrow> [] | Some s \<Rightarrow> s)],
      [''Web'', ''Description'', (case description x of None \<Rightarrow> [] | Some s \<Rightarrow> s)],
      [''Web'', ''Links Count'', str_int (links_count x)],
      [''Web'', ''Images Count'', str_int (images_count x)],
      [''Web'', ''Page Size (bytes)'', str_int (page_size_bytes x)],
      [''Web'', ''Load Time (ms)'', f (load_time_ms x)],
      [''Web'', ''Technologies'', join '', '' (technologies x)]]
     @ map (\<lambda>i. [''Web'', ''Heading '' @ str_nat (i + 1), headings x ! i])
         [0..<min 10 (length (headings x))]"
  unfolding web_rows_def enumerate_take_index or_empty_case by simp

lemma seo_rows_explicit:
  "seo_rows x =
     [[''SEO'', ''Meta Title'', (case meta_title x of None \<Rightarrow> [] | Some s \<Rightarrow> s)],
      [''SEO'', ''Meta Description'', (case meta_description x of None \<Rightarrow> [] | Some s \<Rightarrow> s)],
      [''SEO'', ''Meta Keywords'', join '', '' (meta_keywords x)],
      [''SEO'', ''Canonical URL'', (case canonical_url x of None \<Rightarrow> [] | Some s \<Rightarrow> s)],
      [''SEO'', ''Robots'', (case robots_meta x of None \<Rightarrow> [] | Some s \<Rightarrow> s)]]
     @ map (\<lambda>i. [''SEO'', ''H1 '' @ str_nat (i + 1), h1_tags x ! i]) [0..<length (h1_tags x)]
     @ map (\<lambda>i. [''SEO'', ''H2 '' @ str_nat (i + 1), h2_tags x ! i]) [0..<min 5 (length (h2_tags x))]
     @ map (\<lambda>(k, v). [''SEO'', ''OG: '' @ k, v]) (og_tags x)"
  unfolding seo_rows_def enumerate_take_index or_empty_case
  unfolding enumerate_index by simp

lemma news_rows_explicit:
  "news_rows x =
     [''News'', ''Total Mentions'', str_int (total_mentions x)] #
     concat (map (\<lambda>i.
         [[''News'', ''Article '' @ str_nat (i + 1) @ '' Title'', item_title (items x ! i)],
          [''News'', ''Article '' @ str_nat (i + 1) @ '' URL'', item_url (items x ! i)],
          [''News'', ''Article '' @ str_nat (i + 1) @ '' Source'',
           (case source (items x ! i) of None \<Rightarrow> [] | Some s \<Rightarrow> s)]])
       [0..<min 10 (length (items x))])"
  unfolding news_rows_def enumerate_take_index or_empty_case by simp

lemma profile_rows_explicit:
  "profile_rows p =
     [[''Social ('' @ platform p @ '')'', ''Handle'', handle p]]
     @ (case followers p of None \<Rightarrow> []
        | Some n \<Rightarrow> [[''Social ('' @ platform p @ '')'', ''Followers'', str_int n]])
     @ (case bio p of None \<Rightarrow> []
        | Some b \<Rightarrow> if b = [] then [] else [[''Social ('' @ platform p @ '')'', ''Bio'', b]])"
  by (cases "followers p"; cases "bio p") (simp_all add: profile_rows_def Let_def)

text \<open>
  C3 (as the code has it). The CSV export is the header row, the two Meta rows and, for each
  section that is present, exactly the rows the exporter lists, in this order: the seven Web
  fields and the first 10 headings; the five SEO fields, every H1, the first 5 H2 and every
  og tag; the news total and title, URL and source of the first 10 items; per social profile
  the handle, the followers when not null and the bio when non-empty. A null title,
  description, canonical URL, robots or source gives a row with an empty value. The rows do
  not depend on a profile's following, posts_count and verified, on a news item's
  published_at and snippet, or on structured_data: these are not exported.
\<close>

theorem C3_export_rows:
  "export_csv isof f r =
     [[''Section'', ''Field'', ''Value''],
      [''Meta'', ''Competitor'', competitor_name r],
      [''Meta'', ''Analyzed At'', isof (analyzed_at r)]]
     @ (case web r of None \<Rightarrow> []
        | Some x \<Rightarrow>
            [[''Web'', ''Title'', (case title x of None \<Rightarrow> [] | Some s \<Rightarrow> s)],
             [''Web'', ''Description'', (case description x of None \<Rightarrow> [] | Some s \<Rightarrow> s)],
             [''Web'', ''Links Count'', str_int (links_count x)],
             [''Web'', ''Images Count'', str_int (images_count x)],
             [''Web'', ''Page Size (bytes)'', str_int (page_size_bytes x)],
             [''Web'', ''Load Time (ms)'', f (load_time_ms x)],
             [''Web'', ''Technologies'', join '', '' (technologies x)]]
            @ map (\<lambda>i. [''Web'', ''Heading '' @ str_nat (i + 1), headings x ! i])
                [0..<min 10 (length (headings x))])
     @ (case seo r of None \<Rightarrow> []
        | Some x \<Rightarrow>
            [[''SEO'', ''Meta Title'', (case meta_title x of None \<Rightarrow> [] | Some s \<Rightarrow> s)],
             [''SEO'', ''Meta Description'', (case meta_description x of None \<Rightarrow> [] | Some s \<Rightarrow> s)],
             [''SEO'', ''Meta Keywords'', join '', '' (meta_keywords x)],
             [''SEO'', ''Canonical URL'', (case canonical_url x of None \<Rightarrow> [] | Some s \<Rightarrow> s)],
             [''SEO'', ''Robots'', (case robots_meta x of None \<Rightarrow> [] | Some s \<Rightarrow> s)]]
            @ map (\<lambda>i. [''SEO'', ''H1 '' @ str_nat (i + 1), h1_tags x ! i]) [0..<length (h1_tags x)]
            @ map (\<lambda>i. [''SEO'', ''H2 '' @ str_nat (i + 1), h2_tags x ! i])
                [0..<min 5 (length (h2_tags x))]
            @ map (\<lambda>(k, v). [''SEO'', ''OG: '' @ k, v]) (og_tags x))
     @ (case news r of None \<Rightarrow> []
        | Some x \<Rightarrow>
            [''News'', ''Total Mentions'', str_int (total_mentions x)] #
            concat (map (\<lambda>i.
                [[''News'', ''Article '' @ str_nat (i + 1) @ '' Title'', item_title (items x ! i)],
                 [''News'', ''Article '' @ str_nat (i + 1) @ '' URL'', item_url (items x ! i)],
                 [''News'', ''Article '' @ str_nat (i + 1) @ '' Source'',
                  (case source (items x ! i) of None \<Rightarrow> [] | Some s \<Rightarrow> s)]])
              [0..<min 10 (length (items x))]))
     @ (case social r of None \<Rightarrow> []
        | Some x \<Rightarrow>
            concat (map (\<lambda>p.
                [[''Social ('' @ platform p @ '')'', ''Handle'', handle p]]
                @ (case followers p of None \<Rightarrow> []
                   | Some n \<Rightarrow> [[''Social ('' @ platform p @ '')'', ''Followers'', str_int n]])
                @ (case bio p of None \<Rightarrow> []
                   | Some b \<Rightarrow> if b = [] then []
                              else [[''Social ('' @ platform p @ '')'', ''Bio'', b]]))
              (profiles x))) \<and>
   export_csv isof f
     (r\<lparr>seo := map_option (\<lambda>x. x\<lparr>structured_data := sd x\<rparr>) (seo r),
        news := map_option (\<lambda>n. n\<lparr>items := map (\<lambda>i. i\<lparr>published_at := d i, snippet := g i\<rparr>) (items n)\<rparr>) (news r),
        social := map_option (\<lambda>s. s\<lparr>profiles := map (\<lambda>p. p\<lparr>following := a p, posts_count := b p,
                                    verified := c p\<rparr>) (profiles s)\<rparr>) (social r)\<rparr>)
     = export_csv isof f r"
proof -
  have rows: "export_csv isof f r =
     [[''Section'', ''Field'', ''Value''],
      [''Meta'', ''Competitor'', competitor_name r],
      [''Meta'', ''Analyzed At'', isof (analyzed_at r)]]
     @ (case web r of None \<Rightarrow> [] | Some x \<Rightarrow> web_rows f x)
     @ (case seo r of None \<Rightarrow> [] | Some x \<Rightarrow> seo_rows x)
     @ (case news r of None \<Rightarrow> [] | Some x \<Rightarrow> news_rows x)
     @ (case social r of None \<Rightarrow> [] | Some x \<Rightarrow> concat (map profile_rows (profiles x)))"
    by (simp add: export_csv_def)
  have inv: "export_csv isof f
     (r\<lparr>seo := map_option (\<lambda>x. x\<lparr>structured_data := sd x\<rparr>) (seo r),
        news := map_option (\<lambda>n. n\<lparr>items := map (\<lambda>i. i\<lparr>published_at := d i, snippet := g i\<rparr>) (items n)\<rparr>) (news r),
        social := map_option (\<lambda>s. s\<lparr>profiles := map (\<lambda>p. p\<lparr>following := a p, posts_count := b p,
                                    verified := c p\<rparr>) (profiles s)\<rparr>) (social r)\<rparr>)
     = export_csv isof f r"
    by (cases "seo r"; cases "news r"; cases "social r")
       (simp_all add: export_csv_def news_rows_unexported profile_rows_unexported
          seo_rows_unexported comp_def)
  show ?thesis
    unfolding rows [unfolded web_rows_explicit seo_rows_explicit news_rows_explicit profile_rows_explicit, symmetric]
    using inv by simp
qed

theorem C3_export_rows_witness:
  "export_csv iso0 fmt0 ex_result =
     [[''Section'', ''Field'', ''Value''],
      [''Meta'', ''Competitor'', ''Acme''],
      [''Meta'', ''Analyzed At'', ''2024-01-01T00:00:00''],
      [''News'', ''Total Mentions'', ''1''],
      [''News'', ''Article 1 Title'', ''Acme ships''],
      [''News'', ''Article 1 URL'', ''https://news.test/1''],
      [''News'', ''Article 1 Source'', ''Daily''],
      [''Social (twitter)'', ''Handle'', ''@acme''],
      [''Social (twitter)'', ''Followers'', ''1000''],
      [''Social (twitter)'', ''Bio'', ''We make things'']] \<and>
   export_csv iso0 fmt0
     (ex_result\<lparr>seo := None,
        news := Some \<lparr>items = [ex_item\<lparr>published_at := None, snippet := None\<rparr>], total_mentions = 1\<rparr>,
        social := Some \<lparr>profiles = [ex_profile\<lparr>following := None, posts_count := None,
                                    verified := False\<rparr>]\<rparr>\<rparr>)
     = export_csv iso0 fmt0 ex_result"
proof -
  have n1: "str_int 1 = ''1''" and n2: "str_int 1000 = ''1000''" and n3: "str_nat (Suc 0) = ''1''"
    by code_simp+
  note th = C3_export_rows [where isof = iso0 and f = fmt0 and r = ex_result
        and d = "\<lambda>i. None" and g = "\<lambda>i. None"
        and a = "\<lambda>p. None" and b = "\<lambda>p. None" and c = "\<lambda>p. False"]
  from th have a: "export_csv iso0 fmt0 ex_result =
     [[''Section'', ''Field'', ''Value''],
      [''Meta'', ''Competitor'', ''Acme''],
      [''Meta'', ''Analyzed At'', ''2024-01-01T00:00:00''],
      [''News'', ''Total Mentions'', ''1''],
      [''News'', ''Article 1 Title'', ''Acme ships''],
      [''News'', ''Article 1 URL'', ''https://news.test/1''],
      [''News'', ''Article 1 Source'', ''Daily''],
      [''Social (twitter)'', ''Handle'', ''@acme''],
      [''Social (twitter)'', ''Followers'', ''1000''],
      [''Social (twitter)'', ''Bio'', ''We make things'']]"
    by (simp add: ex_result_def ex_profile_def ex_item_def iso0_def n1 n2 n3)
  from th have b: "export_csv iso0 fmt0
     (ex_result\<lparr>seo := None,
        news := Some \<lparr>items = [ex_item\<lparr>published_at := None, snippet := None\<rparr>], total_mentions = 1\<rparr>,
        social := Some \<lparr>profiles = [ex_profile\<lparr>following := None, posts_count := None,
                                    verified := False\<rparr>]\<rparr>\<rparr>)
     = export_csv iso0 fmt0 ex_result"
    by (simp add: ex_result_def)
  from a b show ?thesis by blast
qed

text \<open>
  C3 as stated fails: in the export of a result whose profile has following 12 and is
  verified, and whose news item has a snippet and a date, no row carries the following
  count, the verified flag, the snippet or the date.
\<close>

theorem C3_unexported_fields_counterexample:
  "export_csv iso0 fmt0 ex_result =
     [[''Section'', ''Field'', ''Value''],
      [''Meta'', ''Competitor'', ''Acme''],
      [''Meta'', ''Analyzed At'', ''2024-01-01T00:00:00''],
      [''News'', ''Total Mentions'', ''1''],
      [''News'', ''Article 1 Title'', ''Acme ships''],
      [''News'', ''Article 1 URL'', ''https://news.test/1''],
      [''News'', ''Article 1 Source'', ''Daily''],
      [''Social (twitter)'', ''Handle'', ''@acme''],
      [''Social (twitter)'', ''Followers'', ''1000''],
      [''Social (twitter)'', ''Bio'', ''We make things'']] \<and>
   ''12'' \<in> set (profile_scalar_values ex_profile) \<and>
   \<not> exported_once (export_csv iso0 fmt0 ex_result) ''Social (twitter)'' ''12'' \<and>
   ''True'' \<in> set (profile_scalar_values ex_profile) \<and>
   \<not> exported_once (export_csv iso0 fmt0 ex_result) ''Social (twitter)'' ''True'' \<and>
   ''Acme ships today'' \<in> set (item_scalar_values iso0 ex_item) \<and>
   \<not> exported_once (export_csv iso0 fmt0 ex_result) ''News'' ''Acme ships today'' \<and>
   ''2024-01-01T00:00:00'' \<in> set (item_scalar_values iso0 ex_item) \<and>
   \<not> exported_once (export_csv iso0 fmt0 ex_result) ''News'' ''2024-01-01T00:00:00''"
proof -
  have p1: "''12'' \<in> set (profile_scalar_values ex_profile)"
    and p2: "''True'' \<in> set (profile_scalar_values ex_profile)"
    by code_simp+
  have i1: "''Acme ships today'' \<in> set (item_scalar_values iso0 ex_item)"
    and i2: "''2024-01-01T00:00:00'' \<in> set (item_scalar_values iso0 ex_item)"
    by code_simp+
  have n: "\<not> exported_once (export_csv iso0 fmt0 ex_result) ''Social (twitter)'' ''12''"
    "\<not> exported_once (export_csv iso0 fmt0 ex_result) ''Social (twitter)'' ''True''"
    "\<not> exported_once (export_csv iso0 fmt0 ex_result) ''News'' ''Acme ships today''"
    "\<not> exported_once (export_csv iso0 fmt0 ex_result) ''News'' ''2024-01-01T00:00:00''"
    unfolding ex_rows by (simp_all add: exported_once_def)
  from ex_rows p1 p2 i1 i2 n show ?thesis by simp
qed

section \<open>Ordering and rate limiting\<close>

lemma issue_time_spacing: "last_request_time self + rate_limit_delay (config self) \<le> issue_time self w"
  by (simp add: issue_time_def rate_limit_def sleep_def Let_def)

lemma issue_time_fresh:
  "last_request_time self = 0 \<Longrightarrow> issue_time self w = max (clock w) (rate_limit_delay (config self))"
  by (simp add: issue_time_def rate_limit_def sleep_def Let_def)

lemma fetch_url_analyzer:
  "fst (snd (fetch_url e self u w)) = self\<lparr>last_request_time := issue_time self w\<rparr>"
  by (simp add: fetch_url_def issue_time_def rate_limit_def Let_def split: prod.splits)

lemma fetch_url_world:
  "snd (snd (fetch_url e self u w)) =
     \<lparr>clock = issue_time self w + fst (http_get e u (issue_time self w)),
      requests = requests w @ [(analyzer_name self, u, issue_time self w)]\<rparr>"
  by (simp add: fetch_url_def issue_time_def rate_limit_def sleep_def Let_def split: prod.splits)

lemma web_analyze_effect:
  "snd (web_analyze e a c w) = (case url c of None \<Rightarrow> (a, w) | Some u \<Rightarrow> snd (fetch_url e a u w))"
  by (simp add: web_analyze_def Let_def split: option.splits prod.splits sum.splits)

lemma seo_analyze_effect:
  "snd (seo_analyze e a c w) = (case url c of None \<Rightarrow> (a, w) | Some u \<Rightarrow> snd (fetch_url e a u w))"
  by (simp add: seo_analyze_def Let_def split: option.splits prod.splits sum.splits)

lemma news_analyze_effect:
  "snd (news_analyze e a c w) = snd (fetch_url e a (rss_url e c) w)"
  by (simp add: news_analyze_def Let_def split: option.splits prod.splits sum.splits)

lemma social_analyze_effect:
  "snd (social_analyze e a c w) =
     (case linkedin c of None \<Rightarrow> (a, w)
      | Some l \<Rightarrow> if l \<noteq> [] then snd (fetch_url e a l w) else (a, w))"
  by (simp add: social_analyze_def analyze_linkedin_def Let_def split: option.splits prod.splits sum.splits)

lemma per_instance_spacing:
  "issue_time self w1 + rate_limit_delay (config self) \<le> issue_time (fst (snd (fetch_url e self u1 w1))) w2"
  using issue_time_spacing [of "self\<lparr>last_request_time := issue_time self w1\<rparr>" w2]
  by (simp add: fetch_url_analyzer)

lemma fetch_step:
  "analyzer_name (fst (snd (fetch_url e a u w))) = analyzer_name a \<and>
   config (fst (snd (fetch_url e a u w))) = config a \<and>
   (\<exists>rs. requests (snd (snd (fetch_url e a u w))) = requests w @ rs \<and>
         subseq (map fst rs) [analyzer_name a])"
  by (simp add: fetch_url_analyzer fetch_url_world)

lemma web_step:
  "\<exists>rs. requests (snd (snd (web_analyze e a c w))) = requests w @ rs \<and>
        subseq (map fst rs) [analyzer_name a]"
  using fetch_step [of e a _ w] by (cases "url c") (simp_all add: web_analyze_effect)

lemma seo_step:
  "\<exists>rs. requests (snd (snd (seo_analyze e a c w))) = requests w @ rs \<and>
        subseq (map fst rs) [analyzer_name a]"
  using fetch_step [of e a _ w] by (cases "url c") (simp_all add: seo_analyze_effect)

lemma news_step:
  "\<exists>rs. requests (snd (snd (news_analyze e a c w))) = requests w @ rs \<and>
        subseq (map fst rs) [analyzer_name a]"
  using fetch_step [of e a _ w] by (simp add: news_analyze_effect)

lemma social_step:
  "\<exists>rs. requests (snd (snd (social_analyze e a c w))) = requests w @ rs \<and>
        subseq (map fst rs) [analyzer_name a]"
  using fetch_step [of e a _ w] by (cases "linkedin c") (simp_all add: social_analyze_effect)

lemma run_all_chain:
  fixes e c az w
  defines "p1 \<equiv> snd (web_analyze e (web_analyzer az) c w)"
  defines "p2 \<equiv> snd (seo_analyze e (seo_analyzer az) c (snd p1))"
  defines "p3 \<equiv> snd (news_analyze e (news_analyzer az) c (snd p2))"
  defines "p4 \<equiv> snd (social_analyze e (social_analyzer az) c (snd p3))"
  shows "\<exists>res'. run_types e c [''web'', ''seo'', ''news'', ''social''] (res, az, w) =
           Inr (res', az\<lparr>web_analyzer := fst p1, seo_analyzer := fst p2, news_analyzer := fst p3,
                        social_analyzer := fst p4\<rparr>, snd p4)"
proof -
  have "\<exists>r1. run_one e c ''web'' (res, az, w) = Inr (r1, az\<lparr>web_analyzer := fst p1\<rparr>, snd p1)"
    unfolding p1_def by (auto simp: run_one_def split: prod.splits sum.splits)
  then obtain r1 where 1: "run_one e c ''web'' (res, az, w) = Inr (r1, az\<lparr>web_analyzer := fst p1\<rparr>, snd p1)"
    by blast
  have "\<exists>r2. run_one e c ''seo'' (r1, az\<lparr>web_analyzer := fst p1\<rparr>, snd p1) =
      Inr (r2, az\<lparr>web_analyzer := fst p1, seo_analyzer := fst p2\<rparr>, snd p2)"
    unfolding p2_def by (auto simp: run_one_def split: prod.splits sum.splits)
  then obtain r2 where 2: "run_one e c ''seo'' (r1, az\<lparr>web_analyzer := fst p1\<rparr>, snd p1) =
      Inr (r2, az\<lparr>web_analyzer := fst p1, seo_analyzer := fst p2\<rparr>, snd p2)"
    by blast
  have "\<exists>r3. run_one e c ''news'' (r2, az\<lparr>web_analyzer := fst p1, seo_analyzer := fst p2\<rparr>, snd p2) =
      Inr (r3, az\<lparr>web_analyzer := fst p1, seo_analyzer := fst p2, news_analyzer := fst p3\<rparr>, snd p3)"
    unfolding p3_def by (auto simp: run_one_def split: prod.splits sum.splits)
  then obtain r3 where 3: "run_one e c ''news'' (r2, az\<lparr>web_analyzer := fst p1, seo_analyzer := fst p2\<rparr>, snd p2) =
      Inr (r3, az\<lparr>web_analyzer := fst p1, seo_analyzer := fst p2, news_analyzer := fst p3\<rparr>, snd p3)"
    by blast
  have "\<exists>r4. run_one e c ''social'' (r3, az\<lparr>web_analyzer := fst p1, seo_analyzer := fst p2, news_analyzer := fst p3\<rparr>, snd p3) =
      Inr (r4, az\<lparr>web_analyzer := fst p1, seo_analyzer := fst p2, news_analyzer := fst p3,
                    social_analyzer := fst p4\<rparr>, snd p4)"
    unfolding p4_def by (auto simp: run_one_def split: prod.splits sum.splits)
  then obtain r4 where 4: "run_one e c ''social'' (r3, az\<lparr>web_analyzer := fst p1, seo_analyzer := fst p2, news_analyzer := fst p3\<rparr>, snd p3) =
      Inr (r4, az\<lparr>web_analyzer := fst p1, seo_analyzer := fst p2, news_analyzer := fst p3,
                    social_analyzer := fst p4\<rparr>, snd p4)"
    by blast
  show ?thesis by (simp add: 1 2 3 4)
qed

lemma make_analyzers_readable:
  assumes "load_config fs = Inr cfg"
  shows "make_analyzers fs =
     Inr \<lparr>web_analyzer = \<lparr>analyzer_name = ''web'', config = cfg, last_request_time = 0\<rparr>,
          seo_analyzer = \<lparr>analyzer_name = ''seo'', config = cfg, last_request_time = 0\<rparr>,
          news_analyzer = \<lparr>analyzer_name = ''news'', config = cfg, last_request_time = 0\<rparr>,
          social_analyzer = \<lparr>analyzer_name = ''social'', config = cfg, last_request_time = 0\<rparr>\<rparr>"
  using assms by (simp add: make_analyzers_def BaseAnalyzer_init_def)

lemma run_all_requests:
  assumes "load_config fs = Inr cfg"
  shows "\<exists>res az w' rs. run_analysis e fs c t True w = Inr (res, az, w') \<and>
           requests w' = requests w @ rs \<and>
           subseq (map fst rs) [''web'', ''seo'', ''news'', ''social'']"
proof -
  define az where "az = \<lparr>web_analyzer = \<lparr>analyzer_name = ''web'', config = cfg, last_request_time = 0\<rparr>,
          seo_analyzer = \<lparr>analyzer_name = ''seo'', config = cfg, last_request_time = 0\<rparr>,
          news_analyzer = \<lparr>analyzer_name = ''news'', config = cfg, last_request_time = 0\<rparr>,
          social_analyzer = \<lparr>analyzer_name = ''social'', config = cfg, last_request_time = 0\<rparr>\<rparr>"
  define p1 where "p1 = snd (web_analyze e (web_analyzer az) c w)"
  define p2 where "p2 = snd (seo_analyze e (seo_analyzer az) c (snd p1))"
  define p3 where "p3 = snd (news_analyze e (news_analyzer az) c (snd p2))"
  define p4 where "p4 = snd (social_analyze e (social_analyzer az) c (snd p3))"
  have mk: "make_analyzers fs = Inr az"
    unfolding az_def by (rule make_analyzers_readable [OF assms])
  define res0 where "res0 = \<lparr>competitor_name = name c, analyzed_at = datetime_now e (clock w),
      web = None, seo = None, news = None, social = None\<rparr>"
  have start: "run_analysis e fs c t True w =
      run_types e c [''web'', ''seo'', ''news'', ''social''] (res0, az, w)"
    unfolding run_analysis_def types_to_run_def res0_def Let_def by (simp only: mk sum.case if_True)
  from run_all_chain [of e c res0 az w]
  obtain res az' where "run_types e c [''web'', ''seo'', ''news'', ''social''] (res0, az, w) = Inr (res, az', snd p4)"
    unfolding p1_def p2_def p3_def p4_def by blast
  with start have run: "run_analysis e fs c t True w = Inr (res, az', snd p4)"
    by simp
  from web_step [of e "web_analyzer az" c w] obtain r1 where
    r1: "requests (snd p1) = requests w @ r1" "subseq (map fst r1) [''web'']"
    unfolding p1_def az_def by auto
  from seo_step [of e "seo_analyzer az" c "snd p1"] obtain r2 where
    r2: "requests (snd p2) = requests (snd p1) @ r2" "subseq (map fst r2) [''seo'']"
    unfolding p2_def az_def by auto
  from news_step [of e "news_analyzer az" c "snd p2"] obtain r3 where
    r3: "requests (snd p3) = requests (snd p2) @ r3" "subseq (map fst r3) [''news'']"
    unfolding p3_def az_def by auto
  from social_step [of e "social_analyzer az" c "snd p3"] obtain r4 where
    r4: "requests (snd p4) = requests (snd p3) @ r4" "subseq (map fst r4) [''social'']"
    unfolding p4_def az_def by auto
  have "subseq (map fst r1 @ map fst r2 @ map fst r3 @ map fst r4)
          ([''web''] @ [''seo''] @ [''news''] @ [''social''])"
    by (intro list_emb_append_mono r1 r2 r3 r4)
  then have "subseq (map fst (r1 @ r2 @ r3 @ r4)) [''web'', ''seo'', ''news'', ''social'']"
    by simp
  moreover have "requests (snd p4) = requests w @ (r1 @ r2 @ r3 @ r4)"
    by (simp add: r1 r2 r3 r4)
  ultimately show ?thesis using run by blast
qed

lemma demo_run_requests:
  "requests_of_run (run_analysis env_demo fs_acme acme None True world0) =
     [(''web'', ''https://acme.test'', 100),
      (''seo'', ''https://acme.test'', 501 / 5),
      (''news'', ''https://news.google.com/rss/search?q=Acme&hl=en-US&gl=US&ceid=US:en'', 502 / 5)]"
proof -
  define cfg where "cfg = Config_default\<lparr>competitors := [(''Acme'', acme)]\<rparr>"
  define az where "az = \<lparr>web_analyzer = \<lparr>analyzer_name = ''web'', config = cfg, last_request_time = 0\<rparr>,
          seo_analyzer = \<lparr>analyzer_name = ''seo'', config = cfg, last_request_time = 0\<rparr>,
          news_analyzer = \<lparr>analyzer_name = ''news'', config = cfg, last_request_time = 0\<rparr>,
          social_analyzer = \<lparr>analyzer_name = ''social'', config = cfg, last_request_time = 0\<rparr>\<rparr>"
  define res0 where "res0 = \<lparr>competitor_name = name acme, analyzed_at = datetime_now env_demo (clock world0),
      web = None, seo = None, news = None, social = None\<rparr>"
  have lc: "load_config fs_acme = Inr cfg"
    by (simp add: load_config_def fs_acme_def cfg_def)
  have mk: "make_analyzers fs_acme = Inr az"
    unfolding az_def by (rule make_analyzers_readable [OF lc])
  have start: "run_analysis env_demo fs_acme acme None True world0 =
      run_types env_demo acme [''web'', ''seo'', ''news'', ''social''] (res0, az, world0)"
    unfolding run_analysis_def types_to_run_def res0_def Let_def by (simp only: mk sum.case if_True)
  have d: "rate_limit_delay cfg = 1"
    by (simp add: cfg_def Config_default_def)
  have g: "fst (http_get env_demo u t) = 1 / 5" for u t
    by (simp add: env_demo_def env_with_def)
  have q: "rss_url env_demo acme = ''https://news.google.com/rss/search?q=Acme&hl=en-US&gl=US&ceid=US:en''"
    by (simp add: rss_url_def env_demo_def env_with_def acme_def)
  have ua: "url acme = Some ''https://acme.test''" "linkedin acme = None"
    by (simp_all add: acme_def)
  from run_all_chain [of env_demo acme res0 az world0]
  obtain res az' where "run_types env_demo acme [''web'', ''seo'', ''news'', ''social''] (res0, az, world0) =
      Inr (res, az',
        snd (snd (social_analyze env_demo (social_analyzer az) acme
          (snd (snd (news_analyze env_demo (news_analyzer az) acme
            (snd (snd (seo_analyze env_demo (seo_analyzer az) acme
              (snd (snd (web_analyze env_demo (web_analyzer az) acme world0))))))))))))"
    by blast
  with start have "requests_of_run (run_analysis env_demo fs_acme acme None True world0) =
      requests (snd (snd (social_analyze env_demo (social_analyzer az) acme
          (snd (snd (news_analyze env_demo (news_analyzer az) acme
            (snd (snd (seo_analyze env_demo (seo_analyzer az) acme
              (snd (snd (web_analyze env_demo (web_analyzer az) acme world0))))))))))))"
    by (simp add: requests_of_run_def)
  also have "\<dots> = [(''web'', ''https://acme.test'', 100),
      (''seo'', ''https://acme.test'', 501 / 5),
      (''news'', ''https://news.google.com/rss/search?q=Acme&hl=en-US&gl=US&ceid=US:en'', 502 / 5)]"
    by (simp add: web_analyze_effect seo_analyze_effect news_analyze_effect social_analyze_effect
        fetch_url_world issue_time_fresh az_def d g q ua world0_def)
  finally show ?thesis .
qed

lemma issue_time_eq:
  "issue_time self w = max (clock w) (last_request_time self + rate_limit_delay (config self))"
  by (simp add: issue_time_def rate_limit_def sleep_def Let_def)

text \<open>
  C1. In a run of all analyses the extractors do run in the order web, seo, news, social,
  but the configured minimum delay is not kept between their requests. The run evaluated
  here has the default configuration (\<open>rate_limit_delay\<close> of one second), a competitor
  with a site URL, a network that answers every GET in a fifth of a second, and the clock at
  100 when it starts. Its request log is web at 100, seo at 100.2 and news at 100.4:
  consecutive requests are a fifth of a second apart, less than the delay. Each analyzer
  is created for the run with its own last-request time of 0 and sends one request, so
  the wait of \<open>_rate_limit\<close> never applies.
\<close>

theorem C1_all_run_requests_unspaced:
  "load_config fs_acme = Inr (Config_default\<lparr>competitors := [(''Acme'', acme)]\<rparr>) \<and>
   rate_limit_delay (Config_default\<lparr>competitors := [(''Acme'', acme)]\<rparr>) = 1 \<and>
   types_to_run None True = [''web'', ''seo'', ''news'', ''social''] \<and>
   requests_of_run (run_analysis env_demo fs_acme acme None True world0) =
     [(''web'', ''https://acme.test'', 100),
      (''seo'', ''https://acme.test'', 501 / 5),
      (''news'', ''https://news.google.com/rss/search?q=Acme&hl=en-US&gl=US&ceid=US:en'', 502 / 5)] \<and>
   \<not> min_spacing 1 (requests_of_run (run_analysis env_demo fs_acme acme None True world0))"
proof -
  have a: "load_config fs_acme = Inr (Config_default\<lparr>competitors := [(''Acme'', acme)]\<rparr>)"
    by (simp add: load_config_def fs_acme_def)
  have b: "rate_limit_delay (Config_default\<lparr>competitors := [(''Acme'', acme)]\<rparr>) = 1"
    by (simp add: Config_default_def)
  have t: "types_to_run None True = [''web'', ''seo'', ''news'', ''social'']"
    by (simp add: types_to_run_def)
  have c: "\<not> min_spacing 1 (requests_of_run (run_analysis env_demo fs_acme acme None True world0))"
    unfolding demo_run_requests by simp
  from a b t demo_run_requests c show ?thesis by blast
qed

end
